theory Spec2Isabelle
  imports Main "HOL-Library.Word"
begin

section \<open>Relay values handled by \<^verbatim>\<open>convolution_make.h\<close>\<close>

text \<open>
  \<^verbatim>\<open>convolution_make.h\<close> holds six function templates that build the call node of a
  convolution operator. Everything they handle is declared in the headers they include
  (\<^verbatim>\<open>tvm/relay/attrs/nn.h\<close>, \<^verbatim>\<open>tvm/relay/op.h\<close>); the builders never look inside any
  of these values, they only store them and pass them on.
\<close>

text \<open>
  Modelled from the spec: \<^verbatim>\<open>DataType\<close>, the element type of a tensor, is not declared in
  \<^verbatim>\<open>convolution_make.h\<close>. It is a type code, a bit width and a lane count; \<^verbatim>\<open>float32\<close>
  is the code float, 32 bits, 1 lane.
\<close>

datatype type_code = kInt | kUInt | kFloat | kHandle

datatype DataType = DataType type_code nat nat

text \<open>
  Modelled from the spec: \<^verbatim>\<open>IndexExpr\<close>, a symbolic integer expression, is not declared
  in \<^verbatim>\<open>convolution_make.h\<close>. It is an integer constant or a size variable.
\<close>

datatype IndexExpr = IntImm int | SizeVar string

text \<open>
  Modelled from the spec: \<^verbatim>\<open>Op\<close>, the operator descriptor, is not declared in
  \<^verbatim>\<open>convolution_make.h\<close>. It is an immutable registered entity identified by a name.
\<close>

datatype Op = Op string

text \<open>
  Modelled from the spec: \<^verbatim>\<open>Type\<close>, a relay type, is not declared in
  \<^verbatim>\<open>convolution_make.h\<close>. The builders use it only for the list of type arguments of
  a call node.
\<close>

datatype relay_type = TensorType "IndexExpr list" DataType

text \<open>
  Modelled from the spec: the attribute record types are not declared in
  \<^verbatim>\<open>convolution_make.h\<close>; the type is the template parameter \<^verbatim>\<open>T\<close> of every builder.
  All that the code asks of \<^verbatim>\<open>T\<close> is that \<^verbatim>\<open>make_object<T>()\<close> gives a fresh object
  and that the fields it names can be assigned. An attribute object is therefore a
  store from field names to field values, and \<^verbatim>\<open>T\<close> is represented by the object that
  \<^verbatim>\<open>make_object<T>()\<close> returns (the default value of each field of \<^verbatim>\<open>T\<close>). A field value
  carries the C++ type of the expression that the builder assigns: \<^verbatim>\<open>int\<close> is a 32-bit
  word and \<^verbatim>\<open>Integer\<close> a 64-bit one, both read as signed.
\<close>

datatype attr_value =
    IntV "32 word"
  | IndexExprV IndexExpr
  | ArrayV "IndexExpr list"
  | StringV string
  | DataTypeV DataType
  | ArrayArrayV "IndexExpr list list"
  | IntegerArrayV "64 word list"
  | StringArrayV "string list"

type_synonym attrs_node = "string \<Rightarrow> attr_value option"

type_synonym ObjectPtr = nat

text \<open>
  Modelled from the spec: \<^verbatim>\<open>Expr\<close> and its call node \<^verbatim>\<open>Call\<close> are not declared in
  \<^verbatim>\<open>convolution_make.h\<close>. An expression is a reference to an immutable node, so it is
  a value here; the builders treat their input expressions as opaque. A call node holds
  the operator, the positional inputs, the reference \<^verbatim>\<open>Attrs\<close> to its attribute object
  and the type arguments, in the order of the four arguments of \<^verbatim>\<open>Call(...)\<close> in the
  source.
\<close>

datatype Expr =
    Var string
  | Call Op "Expr list" ObjectPtr "relay_type list"

text \<open>
  Modelled from the spec: the only error is the one that the registry lookup raises for
  a name without a registered descriptor.
\<close>

datatype error = UnknownOperator string

section \<open>The world a builder runs in\<close>

text \<open>
  Modelled from the spec: the operator registry and the allocator \<^verbatim>\<open>make_object\<close> are
  not defined in \<^verbatim>\<open>convolution_make.h\<close>. The registry is process-wide and the builders
  only read it. Attribute objects are the one kind of object that the builders write to,
  so they live in an explicit heap; \<^verbatim>\<open>make_object<T>()\<close> puts a fresh \<^verbatim>\<open>T\<close> at the next
  free address, and addresses are never handed out twice.
\<close>

record world =
  registry :: "string \<Rightarrow> Op option"
  heap :: "ObjectPtr \<Rightarrow> attrs_node option"
  next_free :: ObjectPtr

definition make_object :: "attrs_node \<Rightarrow> world \<Rightarrow> ObjectPtr \<times> world" where
  "make_object T w =
     (next_free w, w\<lparr>heap := (heap w)(next_free w \<mapsto> T), next_free := Suc (next_free w)\<rparr>)"

text \<open>
  One assignment statement \<^verbatim>\<open>attrs->field = value\<close>. The pointer always comes from the
  \<^verbatim>\<open>make_object\<close> call just before, so the object is there; a write through a pointer
  to nothing changes nothing.
\<close>

definition assign :: "ObjectPtr \<Rightarrow> world \<Rightarrow> string \<times> attr_value \<Rightarrow> world" where
  "assign attrs w fv =
     (case heap w attrs of
        None \<Rightarrow> w
      | Some obj \<Rightarrow> w\<lparr>heap := (heap w)(attrs \<mapsto> obj(fst fv \<mapsto> snd fv))\<rparr>)"

text \<open>
  Modelled from the spec: \<^verbatim>\<open>Op::Get\<close> is declared in \<^verbatim>\<open>tvm/relay/op.h\<close> and defined
  outside \<^verbatim>\<open>convolution_make.h\<close>. The spec gives it as
  \<^verbatim>\<open>resolve(name: string) -> OperatorDescriptor\<close>, which fails with "unknown operator"
  if the name has no registered descriptor.
\<close>

definition Op_Get :: "string \<Rightarrow> world \<Rightarrow> error + Op" where
  "Op_Get name w =
     (case registry w name of
        None \<Rightarrow> Inl (UnknownOperator name)
      | Some d \<Rightarrow> Inr d)"

text \<open>
  When \<^verbatim>\<open>Op::Get\<close> fails, the builder is left at once and its local \<^verbatim>\<open>attrs\<close> pointer is
  destroyed on the way out; it is the only reference to the attribute object, which is
  freed with it.
\<close>

definition release :: "ObjectPtr \<Rightarrow> world \<Rightarrow> world" where
  "release attrs w = w\<lparr>heap := (heap w)(attrs := None)\<rparr>"

section \<open>The six builders\<close>

text \<open>
  Each builder is: allocate the attribute object, run the assignment statements in the
  order of the source, look the operator up, build the call node. The assignment
  statements of a builder are kept as a list, in source order. Arguments are passed by
  value and \<^verbatim>\<open>std::move\<close> only empties the builder's own copy, so neither shows in the
  model.
\<close>

definition MakeConv_assignments ::
  "IndexExpr list \<Rightarrow> IndexExpr list \<Rightarrow> IndexExpr list \<Rightarrow> 32 word \<Rightarrow> IndexExpr \<Rightarrow>
   IndexExpr list \<Rightarrow> string \<Rightarrow> string \<Rightarrow> string \<Rightarrow> DataType \<Rightarrow> (string \<times> attr_value) list" where
  "MakeConv_assignments strides padding dilation groups channels kernel_size
       data_layout kernel_layout out_layout out_dtype =
     [(''strides'', ArrayV strides),
      (''padding'', ArrayV padding),
      (''dilation'', ArrayV dilation),
      (''groups'', IntV groups),
      (''channels'', IndexExprV channels),
      (''kernel_size'', ArrayV kernel_size),
      (''data_layout'', StringV data_layout),
      (''kernel_layout'', StringV kernel_layout),
      (''out_layout'', StringV out_layout),
      (''out_dtype'', DataTypeV out_dtype)]"

definition MakeConv ::
  "attrs_node \<Rightarrow> Expr \<Rightarrow> Expr \<Rightarrow> IndexExpr list \<Rightarrow> IndexExpr list \<Rightarrow> IndexExpr list \<Rightarrow>
   32 word \<Rightarrow> IndexExpr \<Rightarrow> IndexExpr list \<Rightarrow> string \<Rightarrow> string \<Rightarrow> string \<Rightarrow> DataType \<Rightarrow>
   string \<Rightarrow> world \<Rightarrow> (error + Expr) \<times> world" where
  "MakeConv T data weight strides padding dilation groups channels kernel_size
       data_layout kernel_layout out_layout out_dtype op_name w =
     (let (attrs, w1) = make_object T w;
          w2 = foldl (assign attrs) w1
                 (MakeConv_assignments strides padding dilation groups channels kernel_size
                    data_layout kernel_layout out_layout out_dtype)
      in case Op_Get op_name w2 of
           Inl e \<Rightarrow> (Inl e, release attrs w2)
         | Inr op \<Rightarrow> (Inr (Call op [data, weight] attrs []), w2))"

definition MakeFusedConv2D_assignments ::
  "IndexExpr list list \<Rightarrow> IndexExpr list list \<Rightarrow> IndexExpr list list \<Rightarrow> 64 word list \<Rightarrow>
   IndexExpr list \<Rightarrow> IndexExpr list list \<Rightarrow> string list \<Rightarrow> string list \<Rightarrow> string list \<Rightarrow>
   string list \<Rightarrow> DataType \<Rightarrow> (string \<times> attr_value) list" where
  "MakeFusedConv2D_assignments strides_array padding_array dilation_array groups_array
       channels_array kernel_size_array post_op_array data_layout_array
       kernel_layout_array out_layout_array out_dtype =
     [(''num_layers'', IntV 2),
      (''strides_array'', ArrayArrayV strides_array),
      (''padding_array'', ArrayArrayV padding_array),
      (''dilation_array'', ArrayArrayV dilation_array),
      (''groups_array'', IntegerArrayV groups_array),
      (''channels_array'', ArrayV channels_array),
      (''kernel_size_array'', ArrayArrayV kernel_size_array),
      (''post_op_array'', StringArrayV post_op_array),
      (''data_layout_array'', StringArrayV data_layout_array),
      (''kernel_layout_array'', StringArrayV kernel_layout_array),
      (''out_layout_array'', StringArrayV out_layout_array),
      (''out_dtype'', DataTypeV out_dtype)]"

definition MakeFusedConv2D ::
  "attrs_node \<Rightarrow> Expr \<Rightarrow> Expr \<Rightarrow> Expr \<Rightarrow> Expr \<Rightarrow> Expr \<Rightarrow>
   IndexExpr list list \<Rightarrow> IndexExpr list list \<Rightarrow> IndexExpr list list \<Rightarrow> 64 word list \<Rightarrow>
   IndexExpr list \<Rightarrow> IndexExpr list list \<Rightarrow> string list \<Rightarrow> string list \<Rightarrow> string list \<Rightarrow>
   string list \<Rightarrow> DataType \<Rightarrow> string \<Rightarrow> world \<Rightarrow> (error + Expr) \<times> world" where
  "MakeFusedConv2D T data weight1 bias1 weight2 bias2 strides_array padding_array
       dilation_array groups_array channels_array kernel_size_array post_op_array
       data_layout_array kernel_layout_array out_layout_array out_dtype op_name w =
     (let (fused_conv2d_attrs, w1) = make_object T w;
          w2 = foldl (assign fused_conv2d_attrs) w1
                 (MakeFusedConv2D_assignments strides_array padding_array dilation_array
                    groups_array channels_array kernel_size_array post_op_array
                    data_layout_array kernel_layout_array out_layout_array out_dtype)
      in case Op_Get op_name w2 of
           Inl e \<Rightarrow> (Inl e, release fused_conv2d_attrs w2)
         | Inr op \<Rightarrow>
             (Inr (Call op [data, weight1, bias1, weight2, bias2] fused_conv2d_attrs []), w2))"

definition MakeConvWinograd_assignments ::
  "32 word \<Rightarrow> IndexExpr list \<Rightarrow> IndexExpr list \<Rightarrow> IndexExpr list \<Rightarrow> 32 word \<Rightarrow> IndexExpr \<Rightarrow>
   IndexExpr list \<Rightarrow> string \<Rightarrow> string \<Rightarrow> string \<Rightarrow> DataType \<Rightarrow> (string \<times> attr_value) list" where
  "MakeConvWinograd_assignments tile_size strides padding dilation groups channels
       kernel_size data_layout kernel_layout out_layout out_dtype =
     [(''tile_size'', IntV tile_size),
      (''strides'', ArrayV strides),
      (''padding'', ArrayV padding),
      (''dilation'', ArrayV dilation),
      (''groups'', IntV groups),
      (''channels'', IndexExprV channels),
      (''kernel_size'', ArrayV kernel_size),
      (''data_layout'', StringV data_layout),
      (''kernel_layout'', StringV kernel_layout),
      (''out_layout'', StringV out_layout),
      (''out_dtype'', DataTypeV out_dtype)]"

definition MakeConvWinograd ::
  "attrs_node \<Rightarrow> Expr \<Rightarrow> Expr \<Rightarrow> 32 word \<Rightarrow> IndexExpr list \<Rightarrow> IndexExpr list \<Rightarrow>
   IndexExpr list \<Rightarrow> 32 word \<Rightarrow> IndexExpr \<Rightarrow> IndexExpr list \<Rightarrow> string \<Rightarrow> string \<Rightarrow> string \<Rightarrow>
   DataType \<Rightarrow> string \<Rightarrow> world \<Rightarrow> (error + Expr) \<times> world" where
  "MakeConvWinograd T data weight tile_size strides padding dilation groups channels
       kernel_size data_layout kernel_layout out_layout out_dtype op_name w =
     (let (attrs, w1) = make_object T w;
          w2 = foldl (assign attrs) w1
                 (MakeConvWinograd_assignments tile_size strides padding dilation groups
                    channels kernel_size data_layout kernel_layout out_layout out_dtype)
      in case Op_Get op_name w2 of
           Inl e \<Rightarrow> (Inl e, release attrs w2)
         | Inr op \<Rightarrow> (Inr (Call op [data, weight] attrs []), w2))"

definition MakeConvGemm_assignments ::
  "IndexExpr list \<Rightarrow> IndexExpr list \<Rightarrow> IndexExpr list \<Rightarrow> 32 word \<Rightarrow> IndexExpr \<Rightarrow>
   IndexExpr list \<Rightarrow> string \<Rightarrow> string \<Rightarrow> string \<Rightarrow> DataType \<Rightarrow> (string \<times> attr_value) list" where
  "MakeConvGemm_assignments strides padding dilation groups channels kernel_size
       data_layout kernel_layout out_layout out_dtype =
     [(''strides'', ArrayV strides),
      (''padding'', ArrayV padding),
      (''dilation'', ArrayV dilation),
      (''groups'', IntV groups),
      (''channels'', IndexExprV channels),
      (''kernel_size'', ArrayV kernel_size),
      (''data_layout'', StringV data_layout),
      (''kernel_layout'', StringV kernel_layout),
      (''out_layout'', StringV out_layout),
      (''out_dtype'', DataTypeV out_dtype)]"

definition MakeConvGemm ::
  "attrs_node \<Rightarrow> Expr \<Rightarrow> Expr \<Rightarrow> IndexExpr list \<Rightarrow> IndexExpr list \<Rightarrow> IndexExpr list \<Rightarrow>
   32 word \<Rightarrow> IndexExpr \<Rightarrow> IndexExpr list \<Rightarrow> string \<Rightarrow> string \<Rightarrow> string \<Rightarrow> DataType \<Rightarrow>
   string \<Rightarrow> world \<Rightarrow> (error + Expr) \<times> world" where
  "MakeConvGemm T data weight strides padding dilation groups channels kernel_size
       data_layout kernel_layout out_layout out_dtype op_name w =
     (let (attrs, w1) = make_object T w;
          w2 = foldl (assign attrs) w1
                 (MakeConvGemm_assignments strides padding dilation groups channels
                    kernel_size data_layout kernel_layout out_layout out_dtype)
      in case Op_Get op_name w2 of
           Inl e \<Rightarrow> (Inl e, release attrs w2)
         | Inr op \<Rightarrow> (Inr (Call op [data, weight] attrs []), w2))"

definition MakeConvTranspose_assignments ::
  "IndexExpr list \<Rightarrow> IndexExpr list \<Rightarrow> IndexExpr list \<Rightarrow> 32 word \<Rightarrow> IndexExpr \<Rightarrow>
   IndexExpr list \<Rightarrow> string \<Rightarrow> string \<Rightarrow> string \<Rightarrow> IndexExpr list \<Rightarrow> DataType \<Rightarrow>
   (string \<times> attr_value) list" where
  "MakeConvTranspose_assignments strides padding dilation groups channels kernel_size
       data_layout kernel_layout out_layout output_padding out_dtype =
     [(''strides'', ArrayV strides),
      (''padding'', ArrayV padding),
      (''dilation'', ArrayV dilation),
      (''groups'', IntV groups),
      (''channels'', IndexExprV channels),
      (''kernel_size'', ArrayV kernel_size),
      (''data_layout'', StringV data_layout),
      (''kernel_layout'', StringV kernel_layout),
      (''out_layout'', StringV out_layout),
      (''output_padding'', ArrayV output_padding),
      (''out_dtype'', DataTypeV out_dtype)]"

definition MakeConvTranspose ::
  "attrs_node \<Rightarrow> Expr \<Rightarrow> Expr \<Rightarrow> IndexExpr list \<Rightarrow> IndexExpr list \<Rightarrow> IndexExpr list \<Rightarrow>
   32 word \<Rightarrow> IndexExpr \<Rightarrow> IndexExpr list \<Rightarrow> string \<Rightarrow> string \<Rightarrow> string \<Rightarrow> IndexExpr list \<Rightarrow>
   DataType \<Rightarrow> string \<Rightarrow> world \<Rightarrow> (error + Expr) \<times> world" where
  "MakeConvTranspose T data weight strides padding dilation groups channels kernel_size
       data_layout kernel_layout out_layout output_padding out_dtype op_name w =
     (let (attrs, w1) = make_object T w;
          w2 = foldl (assign attrs) w1
                 (MakeConvTranspose_assignments strides padding dilation groups channels
                    kernel_size data_layout kernel_layout out_layout output_padding out_dtype)
      in case Op_Get op_name w2 of
           Inl e \<Rightarrow> (Inl e, release attrs w2)
         | Inr op \<Rightarrow> (Inr (Call op [data, weight] attrs []), w2))"

text \<open>
  The deformable builder takes \<^verbatim>\<open>channels\<close> as a plain \<^verbatim>\<open>int\<close> and assigns it as it is;
  the declared type of the field belongs to \<^verbatim>\<open>T\<close>. It copies its arguments where the
  other builders move them, which stores the same values.
\<close>

definition MakeDeformableConv_assignments ::
  "IndexExpr list \<Rightarrow> IndexExpr list \<Rightarrow> IndexExpr list \<Rightarrow> 32 word \<Rightarrow> 32 word \<Rightarrow> 32 word \<Rightarrow>
   IndexExpr list \<Rightarrow> string \<Rightarrow> string \<Rightarrow> string \<Rightarrow> DataType \<Rightarrow> (string \<times> attr_value) list" where
  "MakeDeformableConv_assignments strides padding dilation deformable_groups groups
       channels kernel_size data_layout kernel_layout out_layout out_dtype =
     [(''strides'', ArrayV strides),
      (''padding'', ArrayV padding),
      (''dilation'', ArrayV dilation),
      (''deformable_groups'', IntV deformable_groups),
      (''groups'', IntV groups),
      (''channels'', IntV channels),
      (''kernel_size'', ArrayV kernel_size),
      (''data_layout'', StringV data_layout),
      (''kernel_layout'', StringV kernel_layout),
      (''out_layout'', StringV out_layout),
      (''out_dtype'', DataTypeV out_dtype)]"

definition MakeDeformableConv ::
  "attrs_node \<Rightarrow> Expr \<Rightarrow> Expr \<Rightarrow> Expr \<Rightarrow> IndexExpr list \<Rightarrow> IndexExpr list \<Rightarrow> IndexExpr list \<Rightarrow>
   32 word \<Rightarrow> 32 word \<Rightarrow> 32 word \<Rightarrow> IndexExpr list \<Rightarrow> string \<Rightarrow> string \<Rightarrow> string \<Rightarrow>
   DataType \<Rightarrow> string \<Rightarrow> world \<Rightarrow> (error + Expr) \<times> world" where
  "MakeDeformableConv T data offset weight strides padding dilation deformable_groups
       groups channels kernel_size data_layout kernel_layout out_layout out_dtype op_name w =
     (let (attrs, w1) = make_object T w;
          w2 = foldl (assign attrs) w1
                 (MakeDeformableConv_assignments strides padding dilation deformable_groups
                    groups channels kernel_size data_layout kernel_layout out_layout out_dtype)
      in case Op_Get op_name w2 of
           Inl e \<Rightarrow> (Inl e, release attrs w2)
         | Inr op \<Rightarrow> (Inr (Call op [data, offset, weight] attrs []), w2))"


section \<open>Reading a call node back\<close>

text \<open>
  The attribute object that a list of assignment statements leaves behind, starting from
  the object \<open>obj\<close>.
\<close>

definition populate :: "attrs_node \<Rightarrow> (string \<times> attr_value) list \<Rightarrow> attrs_node" where
  "populate obj stmts = foldl (\<lambda>obj fv. obj(fst fv \<mapsto> snd fv)) obj stmts"

text \<open>The field \<open>f\<close> of the attribute object of a call node, read in the world \<open>w\<close>.\<close>

fun attrs_field :: "world \<Rightarrow> Expr \<Rightarrow> string \<Rightarrow> attr_value option" where
  "attrs_field w (Call op args attrs tys) f =
     (case heap w attrs of None \<Rightarrow> None | Some obj \<Rightarrow> obj f)"
| "attrs_field w (Var v) f = None"

text \<open>
  Two call nodes built by two invocations are two objects; they are equal when they hold
  the same operator, inputs and type arguments and their attribute objects have the same
  content. \<open>deref\<close> replaces the reference to the attribute object by its content, and
  \<open>outcome\<close> does so for the result of a builder.
\<close>

datatype Expr_value =
    VarValue string
  | CallValue Op "Expr list" "attrs_node option" "relay_type list"

fun deref :: "world \<Rightarrow> Expr \<Rightarrow> Expr_value" where
  "deref w (Call op args attrs tys) = CallValue op args (heap w attrs) tys"
| "deref w (Var v) = VarValue v"

definition outcome :: "(error + Expr) \<times> world \<Rightarrow> error + Expr_value" where
  "outcome rw = (case fst rw of Inl e \<Rightarrow> Inl e | Inr e \<Rightarrow> Inr (deref (snd rw) e))"

text \<open>
  An invocation of one of the six builders: the builder and its arguments, the attribute
  record type first. \<open>invoke\<close> runs it.
\<close>

datatype invocation =
    Conv attrs_node Expr Expr "IndexExpr list" "IndexExpr list" "IndexExpr list" "32 word"
      IndexExpr "IndexExpr list" string string string DataType string
  | FusedConv2D attrs_node Expr Expr Expr Expr Expr "IndexExpr list list"
      "IndexExpr list list" "IndexExpr list list" "64 word list" "IndexExpr list"
      "IndexExpr list list" "string list" "string list" "string list" "string list" DataType
      string
  | ConvWinograd attrs_node Expr Expr "32 word" "IndexExpr list" "IndexExpr list"
      "IndexExpr list" "32 word" IndexExpr "IndexExpr list" string string string DataType
      string
  | ConvGemm attrs_node Expr Expr "IndexExpr list" "IndexExpr list" "IndexExpr list"
      "32 word" IndexExpr "IndexExpr list" string string string DataType string
  | ConvTranspose attrs_node Expr Expr "IndexExpr list" "IndexExpr list" "IndexExpr list"
      "32 word" IndexExpr "IndexExpr list" string string string "IndexExpr list" DataType
      string
  | DeformableConv attrs_node Expr Expr Expr "IndexExpr list" "IndexExpr list"
      "IndexExpr list" "32 word" "32 word" "32 word" "IndexExpr list" string string string
      DataType string

fun invoke :: "invocation \<Rightarrow> world \<Rightarrow> (error + Expr) \<times> world" where
  "invoke (Conv T data weight strides padding dilation groups channels kernel_size
       data_layout kernel_layout out_layout out_dtype op_name) =
     MakeConv T data weight strides padding dilation groups channels kernel_size
       data_layout kernel_layout out_layout out_dtype op_name"
| "invoke (FusedConv2D T data weight1 bias1 weight2 bias2 strides_array padding_array
       dilation_array groups_array channels_array kernel_size_array post_op_array
       data_layout_array kernel_layout_array out_layout_array out_dtype op_name) =
     MakeFusedConv2D T data weight1 bias1 weight2 bias2 strides_array padding_array
       dilation_array groups_array channels_array kernel_size_array post_op_array
       data_layout_array kernel_layout_array out_layout_array out_dtype op_name"
| "invoke (ConvWinograd T data weight tile_size strides padding dilation groups channels
       kernel_size data_layout kernel_layout out_layout out_dtype op_name) =
     MakeConvWinograd T data weight tile_size strides padding dilation groups channels
       kernel_size data_layout kernel_layout out_layout out_dtype op_name"
| "invoke (ConvGemm T data weight strides padding dilation groups channels kernel_size
       data_layout kernel_layout out_layout out_dtype op_name) =
     MakeConvGemm T data weight strides padding dilation groups channels kernel_size
       data_layout kernel_layout out_layout out_dtype op_name"
| "invoke (ConvTranspose T data weight strides padding dilation groups channels kernel_size
       data_layout kernel_layout out_layout output_padding out_dtype op_name) =
     MakeConvTranspose T data weight strides padding dilation groups channels kernel_size
       data_layout kernel_layout out_layout output_padding out_dtype op_name"
| "invoke (DeformableConv T data offset weight strides padding dilation deformable_groups
       groups channels kernel_size data_layout kernel_layout out_layout out_dtype op_name) =
     MakeDeformableConv T data offset weight strides padding dilation deformable_groups
       groups channels kernel_size data_layout kernel_layout out_layout out_dtype op_name"

text \<open>A sequence of invocations, one after the other; the results are dropped.\<close>

fun invoke_all :: "invocation list \<Rightarrow> world \<Rightarrow> world" where
  "invoke_all [] w = w"
| "invoke_all (i # rest) w = invoke_all rest (snd (invoke i w))"

text \<open>
  Worlds for concrete runs. Five operators are registered. In \<open>example_world\<close> one
  attribute object of an earlier invocation is on the heap; \<open>empty_world\<close> has the same
  registry and nothing on the heap.
\<close>

definition example_registry :: "string \<Rightarrow> Op option" where
  "example_registry =
     [''nn.conv2d'' \<mapsto> Op ''nn.conv2d'',
      ''nn.contrib_conv2d_winograd_without_weight_transform'' \<mapsto>
        Op ''nn.contrib_conv2d_winograd_without_weight_transform'',
      ''nn.conv2d_transpose'' \<mapsto> Op ''nn.conv2d_transpose'',
      ''nn.deformable_conv2d'' \<mapsto> Op ''nn.deformable_conv2d'',
      ''nn.fused_conv2d'' \<mapsto> Op ''nn.fused_conv2d'']"

definition example_world :: world where
  "example_world =
     \<lparr>registry = example_registry, heap = [0 \<mapsto> [''groups'' \<mapsto> IntV 1]], next_free = 1\<rparr>"

definition empty_world :: world where
  "empty_world = \<lparr>registry = example_registry, heap = Map.empty, next_free = 0\<rparr>"

text \<open>
  A run of a builder in closed form, for the proofs: the name \<open>op_name\<close> is looked up,
  the inputs \<open>ins\<close> are bound, and the object \<open>T\<close> receives the assignments \<open>stmts\<close>.
\<close>

definition builder_result ::
  "string \<Rightarrow> Expr list \<Rightarrow> attrs_node \<Rightarrow> (string \<times> attr_value) list \<Rightarrow> world \<Rightarrow>
   (error + Expr) \<times> world" where
  "builder_result op_name ins T stmts w =
     (case registry w op_name of
        None \<Rightarrow>
          (Inl (UnknownOperator op_name),
           w\<lparr>heap := (heap w)(next_free w := None), next_free := Suc (next_free w)\<rparr>)
      | Some d \<Rightarrow>
          (Inr (Call d ins (next_free w) []),
           w\<lparr>heap := (heap w)(next_free w \<mapsto> populate T stmts),
             next_free := Suc (next_free w)\<rparr>))"

text \<open>One concrete invocation of each builder.\<close>

definition example_conv :: invocation where
  "example_conv =
     Conv Map.empty (Var ''data'') (Var ''weight'') [IntImm 1, IntImm 1]
       [IntImm 0, IntImm 0, IntImm 0, IntImm 0] [IntImm 1, IntImm 1] 1 (IntImm 64)
       [IntImm 3, IntImm 3] ''NCHW'' ''OIHW'' '''' (DataType kFloat 32 1) ''nn.conv2d''"

definition example_winograd :: invocation where
  "example_winograd =
     ConvWinograd Map.empty (Var ''data'') (Var ''weight'') 4 [IntImm 1, IntImm 1]
       [IntImm 0, IntImm 0, IntImm 0, IntImm 0] [IntImm 1, IntImm 1] 1 (IntImm 64)
       [IntImm 3, IntImm 3] ''NCHW'' ''OIHW'' '''' (DataType kFloat 32 1) ''nn.conv2d''"

definition example_gemm :: invocation where
  "example_gemm =
     ConvGemm Map.empty (Var ''data'') (Var ''weight'') [IntImm 1, IntImm 1]
       [IntImm 0, IntImm 0, IntImm 0, IntImm 0] [IntImm 1, IntImm 1] 1 (IntImm 64)
       [IntImm 3, IntImm 3] ''NCHW'' ''OIHW'' '''' (DataType kFloat 32 1) ''nn.conv2d''"

definition example_transpose :: invocation where
  "example_transpose =
     ConvTranspose Map.empty (Var ''data'') (Var ''weight'') [IntImm 1, IntImm 1]
       [IntImm 0, IntImm 0, IntImm 0, IntImm 0] [IntImm 1, IntImm 1] 1 (IntImm 64)
       [IntImm 3, IntImm 3] ''NCHW'' ''OIHW'' '''' [IntImm 0, IntImm 0]
       (DataType kFloat 32 1) ''nn.conv2d''"

definition example_deformable :: invocation where
  "example_deformable =
     DeformableConv Map.empty (Var ''data'') (Var ''offset'') (Var ''weight'')
       [IntImm 1, IntImm 1] [IntImm 0, IntImm 0, IntImm 0, IntImm 0] [IntImm 1, IntImm 1] 1
       1 64 [IntImm 3, IntImm 3] ''NCHW'' ''OIHW'' '''' (DataType kFloat 32 1) ''nn.conv2d''"

definition example_fused :: invocation where
  "example_fused =
     FusedConv2D Map.empty (Var ''data'') (Var ''weight1'') (Var ''bias1'')
       (Var ''weight2'') (Var ''bias2'') [[IntImm 1, IntImm 1], [IntImm 1, IntImm 1]]
       [[IntImm 0, IntImm 0, IntImm 0, IntImm 0], [IntImm 0, IntImm 0, IntImm 0, IntImm 0]]
       [[IntImm 1, IntImm 1], [IntImm 1, IntImm 1]] [1, 64] [IntImm 64, IntImm 128]
       [[IntImm 3, IntImm 3], [IntImm 1, IntImm 1]] [''relu'', ''relu'']
       [''NCHW'', ''NCHW''] [''OIHW'', ''OIHW''] ['''', ''''] (DataType kFloat 32 1)
       ''nn.conv2d''"

section \<open>What one run of a builder does\<close>

lemma assign_present:
  "heap w p = Some obj \<Longrightarrow>
   assign p w s = w\<lparr>heap := (heap w)(p \<mapsto> obj(fst s \<mapsto> snd s))\<rparr>"
  by (simp add: assign_def)

lemma populate_Nil: "populate obj [] = obj"
  by (simp add: populate_def)

lemma populate_Cons: "populate obj (s # stmts) = populate (obj(fst s \<mapsto> snd s)) stmts"
  by (simp add: populate_def)

lemma foldl_assign:
  "heap w p = Some obj \<Longrightarrow>
   foldl (assign p) w stmts = w\<lparr>heap := (heap w)(p \<mapsto> populate obj stmts)\<rparr>"
proof (induction stmts arbitrary: w obj)
  case Nil
  then show ?case by (simp add: populate_Nil fun_upd_idem)
next
  case (Cons s stmts)
  let ?w' = "w\<lparr>heap := (heap w)(p \<mapsto> obj(fst s \<mapsto> snd s))\<rparr>"
  have step: "assign p w s = ?w'"
    using Cons.prems by (rule assign_present)
  have "heap ?w' p = Some (obj(fst s \<mapsto> snd s))" by simp
  from Cons.IH [OF this] have "foldl (assign p) ?w' stmts =
      ?w'\<lparr>heap := (heap ?w')(p \<mapsto> populate (obj(fst s \<mapsto> snd s)) stmts)\<rparr>" .
  also have "\<dots> = w\<lparr>heap := (heap w)(p \<mapsto> populate obj (s # stmts))\<rparr>"
    by (simp add: populate_Cons)
  finally show ?case by (simp only: foldl_Cons step)
qed

text \<open>The body shared by the six builders, in closed form.\<close>

lemma build_result:
  "(let (attrs, w1) = make_object T w;
        w2 = foldl (assign attrs) w1 stmts
    in case Op_Get op_name w2 of
         Inl e \<Rightarrow> (Inl e, release attrs w2)
       | Inr op \<Rightarrow> (Inr (Call op ins attrs []), w2))
   = builder_result op_name ins T stmts w"
proof -
  let ?w1 = "w\<lparr>heap := (heap w)(next_free w \<mapsto> T), next_free := Suc (next_free w)\<rparr>"
  have "heap ?w1 (next_free w) = Some T" by simp
  from foldl_assign [OF this, of stmts]
  show ?thesis
    by (simp add: make_object_def Op_Get_def release_def builder_result_def
        split: option.split)
qed

lemma builder_result_registered:
  "registry w op_name = Some d \<Longrightarrow>
   builder_result op_name ins T stmts w =
     (Inr (Call d ins (next_free w) []),
      w\<lparr>heap := (heap w)(next_free w \<mapsto> populate T stmts),
        next_free := Suc (next_free w)\<rparr>)"
  by (simp add: builder_result_def)

lemma builder_result_unregistered:
  "registry w op_name = None \<Longrightarrow>
   builder_result op_name ins T stmts w =
     (Inl (UnknownOperator op_name),
      w\<lparr>heap := (heap w)(next_free w := None), next_free := Suc (next_free w)\<rparr>)"
  by (simp add: builder_result_def)

lemma MakeConv_result:
  "MakeConv T data weight strides padding dilation groups channels kernel_size
       data_layout kernel_layout out_layout out_dtype op_name w =
     builder_result op_name [data, weight] T
       (MakeConv_assignments strides padding dilation groups channels kernel_size
          data_layout kernel_layout out_layout out_dtype) w"
  unfolding MakeConv_def by (rule build_result)

lemma MakeFusedConv2D_result:
  "MakeFusedConv2D T data weight1 bias1 weight2 bias2 strides_array padding_array
       dilation_array groups_array channels_array kernel_size_array post_op_array
       data_layout_array kernel_layout_array out_layout_array out_dtype op_name w =
     builder_result op_name [data, weight1, bias1, weight2, bias2] T
       (MakeFusedConv2D_assignments strides_array padding_array dilation_array groups_array
          channels_array kernel_size_array post_op_array data_layout_array
          kernel_layout_array out_layout_array out_dtype) w"
  unfolding MakeFusedConv2D_def by (rule build_result)

lemma MakeConvWinograd_result:
  "MakeConvWinograd T data weight tile_size strides padding dilation groups channels
       kernel_size data_layout kernel_layout out_layout out_dtype op_name w =
     builder_result op_name [data, weight] T
       (MakeConvWinograd_assignments tile_size strides padding dilation groups channels
          kernel_size data_layout kernel_layout out_layout out_dtype) w"
  unfolding MakeConvWinograd_def by (rule build_result)

lemma MakeConvGemm_result:
  "MakeConvGemm T data weight strides padding dilation groups channels kernel_size
       data_layout kernel_layout out_layout out_dtype op_name w =
     builder_result op_name [data, weight] T
       (MakeConvGemm_assignments strides padding dilation groups channels kernel_size
          data_layout kernel_layout out_layout out_dtype) w"
  unfolding MakeConvGemm_def by (rule build_result)

lemma MakeConvTranspose_result:
  "MakeConvTranspose T data weight strides padding dilation groups channels kernel_size
       data_layout kernel_layout out_layout output_padding out_dtype op_name w =
     builder_result op_name [data, weight] T
       (MakeConvTranspose_assignments strides padding dilation groups channels kernel_size
          data_layout kernel_layout out_layout output_padding out_dtype) w"
  unfolding MakeConvTranspose_def by (rule build_result)

lemma MakeDeformableConv_result:
  "MakeDeformableConv T data offset weight strides padding dilation deformable_groups
       groups channels kernel_size data_layout kernel_layout out_layout out_dtype op_name w =
     builder_result op_name [data, offset, weight] T
       (MakeDeformableConv_assignments strides padding dilation deformable_groups groups
          channels kernel_size data_layout kernel_layout out_layout out_dtype) w"
  unfolding MakeDeformableConv_def by (rule build_result)

text \<open>The attribute object that the assignments of each builder leave behind.\<close>

lemma MakeConv_populate:
  "populate T (MakeConv_assignments strides padding dilation groups channels kernel_size
       data_layout kernel_layout out_layout out_dtype) =
     T(''strides'' \<mapsto> ArrayV strides,
        ''padding'' \<mapsto> ArrayV padding,
        ''dilation'' \<mapsto> ArrayV dilation,
        ''groups'' \<mapsto> IntV groups,
        ''channels'' \<mapsto> IndexExprV channels,
        ''kernel_size'' \<mapsto> ArrayV kernel_size,
        ''data_layout'' \<mapsto> StringV data_layout,
        ''kernel_layout'' \<mapsto> StringV kernel_layout,
        ''out_layout'' \<mapsto> StringV out_layout,
        ''out_dtype'' \<mapsto> DataTypeV out_dtype)"
  by (simp add: populate_def MakeConv_assignments_def)

lemma MakeFusedConv2D_populate:
  "populate T (MakeFusedConv2D_assignments strides_array padding_array dilation_array groups_array
       channels_array kernel_size_array post_op_array data_layout_array
       kernel_layout_array out_layout_array out_dtype) =
     T(''num_layers'' \<mapsto> IntV 2,
        ''strides_array'' \<mapsto> ArrayArrayV strides_array,
        ''padding_array'' \<mapsto> ArrayArrayV padding_array,
        ''dilation_array'' \<mapsto> ArrayArrayV dilation_array,
        ''groups_array'' \<mapsto> IntegerArrayV groups_array,
        ''channels_array'' \<mapsto> ArrayV channels_array,
        ''kernel_size_array'' \<mapsto> ArrayArrayV kernel_size_array,
        ''post_op_array'' \<mapsto> StringArrayV post_op_array,
        ''data_layout_array'' \<mapsto> StringArrayV data_layout_array,
        ''kernel_layout_array'' \<mapsto> StringArrayV kernel_layout_array,
        ''out_layout_array'' \<mapsto> StringArrayV out_layout_array,
        ''out_dtype'' \<mapsto> DataTypeV out_dtype)"
  by (simp add: populate_def MakeFusedConv2D_assignments_def)

lemma MakeConvWinograd_populate:
  "populate T (MakeConvWinograd_assignments tile_size strides padding dilation groups channels
       kernel_size data_layout kernel_layout out_layout out_dtype) =
     T(''tile_size'' \<mapsto> IntV tile_size,
        ''strides'' \<mapsto> ArrayV strides,
        ''padding'' \<mapsto> ArrayV padding,
        ''dilation'' \<mapsto> ArrayV dilation,
        ''groups'' \<mapsto> IntV groups,
        ''channels'' \<mapsto> IndexExprV channels,
        ''kernel_size'' \<mapsto> ArrayV kernel_size,
        ''data_layout'' \<mapsto> StringV data_layout,
        ''kernel_layout'' \<mapsto> StringV kernel_layout,
        ''out_layout'' \<mapsto> StringV out_layout,
        ''out_dtype'' \<mapsto> DataTypeV out_dtype)"
  by (simp add: populate_def MakeConvWinograd_assignments_def)

lemma MakeConvGemm_populate:
  "populate T (MakeConvGemm_assignments strides padding dilation groups channels kernel_size
       data_layout kernel_layout out_layout out_dtype) =
     T(''strides'' \<mapsto> ArrayV strides,
        ''padding'' \<mapsto> ArrayV padding,
        ''dilation'' \<mapsto> ArrayV dilation,
        ''groups'' \<mapsto> IntV groups,
        ''channels'' \<mapsto> IndexExprV channels,
        ''kernel_size'' \<mapsto> ArrayV kernel_size,
        ''data_layout'' \<mapsto> StringV data_layout,
        ''kernel_layout'' \<mapsto> StringV kernel_layout,
        ''out_layout'' \<mapsto> StringV out_layout,
        ''out_dtype'' \<mapsto> DataTypeV out_dtype)"
  by (simp add: populate_def MakeConvGemm_assignments_def)

lemma MakeConvTranspose_populate:
  "populate T (MakeConvTranspose_assignments strides padding dilation groups channels kernel_size
       data_layout kernel_layout out_layout output_padding out_dtype) =
     T(''strides'' \<mapsto> ArrayV strides,
        ''padding'' \<mapsto> ArrayV padding,
        ''dilation'' \<mapsto> ArrayV dilation,
        ''groups'' \<mapsto> IntV groups,
        ''channels'' \<mapsto> IndexExprV channels,
        ''kernel_size'' \<mapsto> ArrayV kernel_size,
        ''data_layout'' \<mapsto> StringV data_layout,
        ''kernel_layout'' \<mapsto> StringV kernel_layout,
        ''out_layout'' \<mapsto> StringV out_layout,
        ''output_padding'' \<mapsto> ArrayV output_padding,
        ''out_dtype'' \<mapsto> DataTypeV out_dtype)"
  by (simp add: populate_def MakeConvTranspose_assignments_def)

lemma MakeDeformableConv_populate:
  "populate T (MakeDeformableConv_assignments strides padding dilation deformable_groups groups
       channels kernel_size data_layout kernel_layout out_layout out_dtype) =
     T(''strides'' \<mapsto> ArrayV strides,
        ''padding'' \<mapsto> ArrayV padding,
        ''dilation'' \<mapsto> ArrayV dilation,
        ''deformable_groups'' \<mapsto> IntV deformable_groups,
        ''groups'' \<mapsto> IntV groups,
        ''channels'' \<mapsto> IntV channels,
        ''kernel_size'' \<mapsto> ArrayV kernel_size,
        ''data_layout'' \<mapsto> StringV data_layout,
        ''kernel_layout'' \<mapsto> StringV kernel_layout,
        ''out_layout'' \<mapsto> StringV out_layout,
        ''out_dtype'' \<mapsto> DataTypeV out_dtype)"
  by (simp add: populate_def MakeDeformableConv_assignments_def)

section \<open>Inputs of the call node\<close>

text \<open>
  C1. With a registered operator name, every builder returns a call node whose positional
  inputs are exactly the builder's input expressions in the fixed order of its variant:
  \<open>[data, weight]\<close> for the plain, winograd, gemm and transpose builders,
  \<open>[data, offset, weight]\<close> for the deformable builder (the offset stands between data
  and weight), and \<open>[data, weight1, bias1, weight2, bias2]\<close> for the fused builder.
\<close>

theorem builders_bind_inputs_in_order:
  assumes "registry w op_name = Some d"
  shows
    "(\<exists>op attrs tys.
        fst (MakeConv T data weight strides padding dilation groups channels kernel_size
          data_layout kernel_layout out_layout out_dtype op_name w)
        = Inr (Call op [data, weight] attrs tys)) \<and>
     (\<exists>op attrs tys.
        fst (MakeConvWinograd T data weight tile_size strides padding dilation groups
          channels kernel_size data_layout kernel_layout out_layout out_dtype op_name w)
        = Inr (Call op [data, weight] attrs tys)) \<and>
     (\<exists>op attrs tys.
        fst (MakeConvGemm T data weight strides padding dilation groups channels kernel_size
          data_layout kernel_layout out_layout out_dtype op_name w)
        = Inr (Call op [data, weight] attrs tys)) \<and>
     (\<exists>op attrs tys.
        fst (MakeConvTranspose T data weight strides padding dilation groups channels
          kernel_size data_layout kernel_layout out_layout output_padding out_dtype op_name
          w)
        = Inr (Call op [data, weight] attrs tys)) \<and>
     (\<exists>op attrs tys.
        fst (MakeDeformableConv T data offset weight strides padding dilation
          deformable_groups groups int_channels kernel_size data_layout kernel_layout
          out_layout out_dtype op_name w)
        = Inr (Call op [data, offset, weight] attrs tys)) \<and>
     (\<exists>op attrs tys.
        fst (MakeFusedConv2D T data weight1 bias1 weight2 bias2 strides_array padding_array
          dilation_array groups_array channels_array kernel_size_array post_op_array
          data_layout_array kernel_layout_array out_layout_array out_dtype op_name w)
        = Inr (Call op [data, weight1, bias1, weight2, bias2] attrs tys))"
  using assms
  by (simp add:
      MakeConv_result MakeConvWinograd_result MakeConvGemm_result MakeConvTranspose_result
      MakeDeformableConv_result MakeFusedConv2D_result builder_result_registered)

theorem builders_bind_inputs_in_order_witness:
  "registry example_world ''nn.conv2d'' = Some (Op ''nn.conv2d'') \<and>
   (\<exists>op attrs tys.
      fst (MakeConv Map.empty (Var ''data'') (Var ''weight'') [IntImm 1, IntImm 1]
        [IntImm 0, IntImm 0, IntImm 0, IntImm 0] [IntImm 1, IntImm 1] 1 (IntImm 64)
        [IntImm 3, IntImm 3] ''NCHW'' ''OIHW'' '''' (DataType kFloat 32 1) ''nn.conv2d''
        example_world)
      = Inr (Call op [Var ''data'', Var ''weight''] attrs tys)) \<and>
   (\<exists>op attrs tys.
      fst (MakeConvWinograd Map.empty (Var ''data'') (Var ''weight'') 4
        [IntImm 1, IntImm 1] [IntImm 0, IntImm 0, IntImm 0, IntImm 0] [IntImm 1, IntImm 1]
        1 (IntImm 64) [IntImm 3, IntImm 3] ''NCHW'' ''OIHW'' '''' (DataType kFloat 32 1)
        ''nn.conv2d'' example_world)
      = Inr (Call op [Var ''data'', Var ''weight''] attrs tys)) \<and>
   (\<exists>op attrs tys.
      fst (MakeConvGemm Map.empty (Var ''data'') (Var ''weight'') [IntImm 1, IntImm 1]
        [IntImm 0, IntImm 0, IntImm 0, IntImm 0] [IntImm 1, IntImm 1] 1 (IntImm 64)
        [IntImm 3, IntImm 3] ''NCHW'' ''OIHW'' '''' (DataType kFloat 32 1) ''nn.conv2d''
        example_world)
      = Inr (Call op [Var ''data'', Var ''weight''] attrs tys)) \<and>
   (\<exists>op attrs tys.
      fst (MakeConvTranspose Map.empty (Var ''data'') (Var ''weight'')
        [IntImm 1, IntImm 1] [IntImm 0, IntImm 0, IntImm 0, IntImm 0] [IntImm 1, IntImm 1]
        1 (IntImm 64) [IntImm 3, IntImm 3] ''NCHW'' ''OIHW'' '''' [IntImm 0, IntImm 0]
        (DataType kFloat 32 1) ''nn.conv2d'' example_world)
      = Inr (Call op [Var ''data'', Var ''weight''] attrs tys)) \<and>
   (\<exists>op attrs tys.
      fst (MakeDeformableConv Map.empty (Var ''data'') (Var ''offset'') (Var ''weight'')
        [IntImm 1, IntImm 1] [IntImm 0, IntImm 0, IntImm 0, IntImm 0] [IntImm 1, IntImm 1]
        1 1 64 [IntImm 3, IntImm 3] ''NCHW'' ''OIHW'' '''' (DataType kFloat 32 1)
        ''nn.conv2d'' example_world)
      = Inr (Call op [Var ''data'', Var ''offset'', Var ''weight''] attrs tys)) \<and>
   (\<exists>op attrs tys.
      fst (MakeFusedConv2D Map.empty (Var ''data'') (Var ''weight1'') (Var ''bias1'')
        (Var ''weight2'') (Var ''bias2'') [[IntImm 1, IntImm 1], [IntImm 1, IntImm 1]]
        [[IntImm 0, IntImm 0, IntImm 0, IntImm 0], [IntImm 0, IntImm 0, IntImm 0, IntImm 0]]
        [[IntImm 1, IntImm 1], [IntImm 1, IntImm 1]] [1, 64] [IntImm 64, IntImm 128]
        [[IntImm 3, IntImm 3], [IntImm 1, IntImm 1]] [''relu'', ''relu'']
        [''NCHW'', ''NCHW''] [''OIHW'', ''OIHW''] ['''', ''''] (DataType kFloat 32 1)
        ''nn.conv2d'' example_world)
      = Inr (Call op [Var ''data'', Var ''weight1'', Var ''bias1'', Var ''weight2'', Var ''bias2''] attrs tys))"
proof -
  have reg: "registry example_world ''nn.conv2d'' = Some (Op ''nn.conv2d'')"
    by (simp add: example_world_def example_registry_def)
  show ?thesis
    by (rule conjI [OF reg builders_bind_inputs_in_order [OF reg]])
qed

section \<open>Fields of the attribute record\<close>

text \<open>
  C2. With a registered operator name, every builder returns a call node in whose
  attribute record each field holds the value the caller supplied for it, unchanged.
  In particular, where \<open>nn.conv2d\<close> is registered, the plain builder called with strides
  \<open>[1,1]\<close>, padding \<open>[0,0,0,0]\<close>, dilation \<open>[1,1]\<close>, groups 1, channels 64, kernel size
  \<open>[3,3]\<close>, data layout \<open>NCHW\<close>, kernel layout \<open>OIHW\<close>, an empty output layout, output
  type float32 and the name \<open>nn.conv2d\<close> returns a call node that refers to the
  descriptor registered as \<open>nn.conv2d\<close>, has exactly the two inputs, and has these
  literals in its fields.
\<close>

theorem builders_store_fields_unchanged:
  "(\<forall>d. registry w op_name = Some d \<longrightarrow>
      (\<exists>e w'.
         MakeConv T data weight strides padding dilation groups channels kernel_size
           data_layout kernel_layout out_layout out_dtype op_name w = (Inr e, w')
       \<and> attrs_field w' e ''strides'' = Some (ArrayV strides)
       \<and> attrs_field w' e ''padding'' = Some (ArrayV padding)
       \<and> attrs_field w' e ''dilation'' = Some (ArrayV dilation)
       \<and> attrs_field w' e ''groups'' = Some (IntV groups)
       \<and> attrs_field w' e ''channels'' = Some (IndexExprV channels)
       \<and> attrs_field w' e ''kernel_size'' = Some (ArrayV kernel_size)
       \<and> attrs_field w' e ''data_layout'' = Some (StringV data_layout)
       \<and> attrs_field w' e ''kernel_layout'' = Some (StringV kernel_layout)
       \<and> attrs_field w' e ''out_layout'' = Some (StringV out_layout)
       \<and> attrs_field w' e ''out_dtype'' = Some (DataTypeV out_dtype)) \<and>
      (\<exists>e w'.
         MakeConvWinograd T data weight tile_size strides padding dilation groups channels
           kernel_size data_layout kernel_layout out_layout out_dtype op_name w = (Inr e, w')
       \<and> attrs_field w' e ''tile_size'' = Some (IntV tile_size)
       \<and> attrs_field w' e ''strides'' = Some (ArrayV strides)
       \<and> attrs_field w' e ''padding'' = Some (ArrayV padding)
       \<and> attrs_field w' e ''dilation'' = Some (ArrayV dilation)
       \<and> attrs_field w' e ''groups'' = Some (IntV groups)
       \<and> attrs_field w' e ''channels'' = Some (IndexExprV channels)
       \<and> attrs_field w' e ''kernel_size'' = Some (ArrayV kernel_size)
       \<and> attrs_field w' e ''data_layout'' = Some (StringV data_layout)
       \<and> attrs_field w' e ''kernel_layout'' = Some (StringV kernel_layout)
       \<and> attrs_field w' e ''out_layout'' = Some (StringV out_layout)
       \<and> attrs_field w' e ''out_dtype'' = Some (DataTypeV out_dtype)) \<and>
      (\<exists>e w'.
         MakeConvGemm T data weight strides padding dilation groups channels kernel_size
           data_layout kernel_layout out_layout out_dtype op_name w = (Inr e, w')
       \<and> attrs_field w' e ''strides'' = Some (ArrayV strides)
       \<and> attrs_field w' e ''padding'' = Some (ArrayV padding)
       \<and> attrs_field w' e ''dilation'' = Some (ArrayV dilation)
       \<and> attrs_field w' e ''groups'' = Some (IntV groups)
       \<and> attrs_field w' e ''channels'' = Some (IndexExprV channels)
       \<and> attrs_field w' e ''kernel_size'' = Some (ArrayV kernel_size)
       \<and> attrs_field w' e ''data_layout'' = Some (StringV data_layout)
       \<and> attrs_field w' e ''kernel_layout'' = Some (StringV kernel_layout)
       \<and> attrs_field w' e ''out_layout'' = Some (StringV out_layout)
       \<and> attrs_field w' e ''out_dtype'' = Some (DataTypeV out_dtype)) \<and>
      (\<exists>e w'.
         MakeConvTranspose T data weight strides padding dilation groups channels
           kernel_size data_layout kernel_layout out_layout output_padding out_dtype op_name
           w = (Inr e, w')
       \<and> attrs_field w' e ''strides'' = Some (ArrayV strides)
       \<and> attrs_field w' e ''padding'' = Some (ArrayV padding)
       \<and> attrs_field w' e ''dilation'' = Some (ArrayV dilation)
       \<and> attrs_field w' e ''groups'' = Some (IntV groups)
       \<and> attrs_field w' e ''channels'' = Some (IndexExprV channels)
       \<and> attrs_field w' e ''kernel_size'' = Some (ArrayV kernel_size)
       \<and> attrs_field w' e ''data_layout'' = Some (StringV data_layout)
       \<and> attrs_field w' e ''kernel_layout'' = Some (StringV kernel_layout)
       \<and> attrs_field w' e ''out_layout'' = Some (StringV out_layout)
       \<and> attrs_field w' e ''output_padding'' = Some (ArrayV output_padding)
       \<and> attrs_field w' e ''out_dtype'' = Some (DataTypeV out_dtype)) \<and>
      (\<exists>e w'.
         MakeDeformableConv T data offset weight strides padding dilation deformable_groups
           groups int_channels kernel_size data_layout kernel_layout out_layout out_dtype
           op_name w = (Inr e, w')
       \<and> attrs_field w' e ''strides'' = Some (ArrayV strides)
       \<and> attrs_field w' e ''padding'' = Some (ArrayV padding)
       \<and> attrs_field w' e ''dilation'' = Some (ArrayV dilation)
       \<and> attrs_field w' e ''deformable_groups'' = Some (IntV deformable_groups)
       \<and> attrs_field w' e ''groups'' = Some (IntV groups)
       \<and> attrs_field w' e ''channels'' = Some (IntV int_channels)
       \<and> attrs_field w' e ''kernel_size'' = Some (ArrayV kernel_size)
       \<and> attrs_field w' e ''data_layout'' = Some (StringV data_layout)
       \<and> attrs_field w' e ''kernel_layout'' = Some (StringV kernel_layout)
       \<and> attrs_field w' e ''out_layout'' = Some (StringV out_layout)
       \<and> attrs_field w' e ''out_dtype'' = Some (DataTypeV out_dtype)) \<and>
      (\<exists>e w'.
         MakeFusedConv2D T data weight1 bias1 weight2 bias2 strides_array padding_array
           dilation_array groups_array channels_array kernel_size_array post_op_array
           data_layout_array kernel_layout_array out_layout_array out_dtype op_name w = (Inr e, w')
       \<and> attrs_field w' e ''strides_array'' = Some (ArrayArrayV strides_array)
       \<and> attrs_field w' e ''padding_array'' = Some (ArrayArrayV padding_array)
       \<and> attrs_field w' e ''dilation_array'' = Some (ArrayArrayV dilation_array)
       \<and> attrs_field w' e ''groups_array'' = Some (IntegerArrayV groups_array)
       \<and> attrs_field w' e ''channels_array'' = Some (ArrayV channels_array)
       \<and> attrs_field w' e ''kernel_size_array'' = Some (ArrayArrayV kernel_size_array)
       \<and> attrs_field w' e ''post_op_array'' = Some (StringArrayV post_op_array)
       \<and> attrs_field w' e ''data_layout_array'' = Some (StringArrayV data_layout_array)
       \<and> attrs_field w' e ''kernel_layout_array'' = Some (StringArrayV kernel_layout_array)
       \<and> attrs_field w' e ''out_layout_array'' = Some (StringArrayV out_layout_array)
       \<and> attrs_field w' e ''out_dtype'' = Some (DataTypeV out_dtype))) \<and>
   (\<forall>conv2d. registry w ''nn.conv2d'' = Some conv2d \<longrightarrow>
      (\<exists>attrs w'.
         MakeConv T data weight [IntImm 1, IntImm 1]
           [IntImm 0, IntImm 0, IntImm 0, IntImm 0] [IntImm 1, IntImm 1] 1 (IntImm 64)
           [IntImm 3, IntImm 3] ''NCHW'' ''OIHW'' '''' (DataType kFloat 32 1) ''nn.conv2d''
           w
         = (Inr (Call conv2d [data, weight] attrs []), w')
       \<and> attrs_field w' (Call conv2d [data, weight] attrs [])
           ''strides'' = Some (ArrayV [IntImm 1, IntImm 1])
       \<and> attrs_field w' (Call conv2d [data, weight] attrs [])
           ''padding'' = Some (ArrayV [IntImm 0, IntImm 0, IntImm 0, IntImm 0])
       \<and> attrs_field w' (Call conv2d [data, weight] attrs [])
           ''dilation'' = Some (ArrayV [IntImm 1, IntImm 1])
       \<and> attrs_field w' (Call conv2d [data, weight] attrs [])
           ''groups'' = Some (IntV 1)
       \<and> attrs_field w' (Call conv2d [data, weight] attrs [])
           ''channels'' = Some (IndexExprV (IntImm 64))
       \<and> attrs_field w' (Call conv2d [data, weight] attrs [])
           ''kernel_size'' = Some (ArrayV [IntImm 3, IntImm 3])
       \<and> attrs_field w' (Call conv2d [data, weight] attrs [])
           ''data_layout'' = Some (StringV ''NCHW'')
       \<and> attrs_field w' (Call conv2d [data, weight] attrs [])
           ''kernel_layout'' = Some (StringV ''OIHW'')
       \<and> attrs_field w' (Call conv2d [data, weight] attrs [])
           ''out_layout'' = Some (StringV '''')
       \<and> attrs_field w' (Call conv2d [data, weight] attrs [])
           ''out_dtype'' = Some (DataTypeV (DataType kFloat 32 1))))"
  by (intro conjI allI impI)
    (simp_all add:
      MakeConv_result MakeConvWinograd_result MakeConvGemm_result MakeConvTranspose_result
      MakeDeformableConv_result MakeFusedConv2D_result builder_result_registered
      MakeConv_populate MakeConvWinograd_populate MakeConvGemm_populate
      MakeConvTranspose_populate MakeDeformableConv_populate MakeFusedConv2D_populate)

theorem builders_store_fields_unchanged_witness:
  "registry example_world ''nn.conv2d'' = Some (Op ''nn.conv2d'') \<and>
  ((\<exists>e w'.
      MakeConv Map.empty (Var ''data'') (Var ''weight'') [IntImm 1, IntImm 1]
        [IntImm 0, IntImm 0, IntImm 0, IntImm 0] [IntImm 1, IntImm 1] 1 (IntImm 64)
        [IntImm 3, IntImm 3] ''NCHW'' ''OIHW'' '''' (DataType kFloat 32 1) ''nn.conv2d''
        example_world = (Inr e, w')
    \<and> attrs_field w' e ''strides'' = Some (ArrayV [IntImm 1, IntImm 1])
    \<and> attrs_field w' e ''padding'' = Some (ArrayV [IntImm 0, IntImm 0, IntImm 0, IntImm 0])
    \<and> attrs_field w' e ''dilation'' = Some (ArrayV [IntImm 1, IntImm 1])
    \<and> attrs_field w' e ''groups'' = Some (IntV 1)
    \<and> attrs_field w' e ''channels'' = Some (IndexExprV (IntImm 64))
    \<and> attrs_field w' e ''kernel_size'' = Some (ArrayV [IntImm 3, IntImm 3])
    \<and> attrs_field w' e ''data_layout'' = Some (StringV ''NCHW'')
    \<and> attrs_field w' e ''kernel_layout'' = Some (StringV ''OIHW'')
    \<and> attrs_field w' e ''out_layout'' = Some (StringV '''')
    \<and> attrs_field w' e ''out_dtype'' = Some (DataTypeV (DataType kFloat 32 1))) \<and>
   (\<exists>e w'.
      MakeConvWinograd Map.empty (Var ''data'') (Var ''weight'') 4 [IntImm 1, IntImm 1]
        [IntImm 0, IntImm 0, IntImm 0, IntImm 0] [IntImm 1, IntImm 1] 1 (IntImm 64)
        [IntImm 3, IntImm 3] ''NCHW'' ''OIHW'' '''' (DataType kFloat 32 1) ''nn.conv2d''
        example_world = (Inr e, w')
    \<and> attrs_field w' e ''tile_size'' = Some (IntV 4)
    \<and> attrs_field w' e ''strides'' = Some (ArrayV [IntImm 1, IntImm 1])
    \<and> attrs_field w' e ''padding'' = Some (ArrayV [IntImm 0, IntImm 0, IntImm 0, IntImm 0])
    \<and> attrs_field w' e ''dilation'' = Some (ArrayV [IntImm 1, IntImm 1])
    \<and> attrs_field w' e ''groups'' = Some (IntV 1)
    \<and> attrs_field w' e ''channels'' = Some (IndexExprV (IntImm 64))
    \<and> attrs_field w' e ''kernel_size'' = Some (ArrayV [IntImm 3, IntImm 3])
    \<and> attrs_field w' e ''data_layout'' = Some (StringV ''NCHW'')
    \<and> attrs_field w' e ''kernel_layout'' = Some (StringV ''OIHW'')
    \<and> attrs_field w' e ''out_layout'' = Some (StringV '''')
    \<and> attrs_field w' e ''out_dtype'' = Some (DataTypeV (DataType kFloat 32 1))) \<and>
   (\<exists>e w'.
      MakeConvGemm Map.empty (Var ''data'') (Var ''weight'') [IntImm 1, IntImm 1]
        [IntImm 0, IntImm 0, IntImm 0, IntImm 0] [IntImm 1, IntImm 1] 1 (IntImm 64)
        [IntImm 3, IntImm 3] ''NCHW'' ''OIHW'' '''' (DataType kFloat 32 1) ''nn.conv2d''
        example_world = (Inr e, w')
    \<and> attrs_field w' e ''strides'' = Some (ArrayV [IntImm 1, IntImm 1])
    \<and> attrs_field w' e ''padding'' = Some (ArrayV [IntImm 0, IntImm 0, IntImm 0, IntImm 0])
    \<and> attrs_field w' e ''dilation'' = Some (ArrayV [IntImm 1, IntImm 1])
    \<and> attrs_field w' e ''groups'' = Some (IntV 1)
    \<and> attrs_field w' e ''channels'' = Some (IndexExprV (IntImm 64))
    \<and> attrs_field w' e ''kernel_size'' = Some (ArrayV [IntImm 3, IntImm 3])
    \<and> attrs_field w' e ''data_layout'' = Some (StringV ''NCHW'')
    \<and> attrs_field w' e ''kernel_layout'' = Some (StringV ''OIHW'')
    \<and> attrs_field w' e ''out_layout'' = Some (StringV '''')
    \<and> attrs_field w' e ''out_dtype'' = Some (DataTypeV (DataType kFloat 32 1))) \<and>
   (\<exists>e w'.
      MakeConvTranspose Map.empty (Var ''data'') (Var ''weight'') [IntImm 1, IntImm 1]
        [IntImm 0, IntImm 0, IntImm 0, IntImm 0] [IntImm 1, IntImm 1] 1 (IntImm 64)
        [IntImm 3, IntImm 3] ''NCHW'' ''OIHW'' '''' [IntImm 0, IntImm 0]
        (DataType kFloat 32 1) ''nn.conv2d'' example_world = (Inr e, w')
    \<and> attrs_field w' e ''strides'' = Some (ArrayV [IntImm 1, IntImm 1])
    \<and> attrs_field w' e ''padding'' = Some (ArrayV [IntImm 0, IntImm 0, IntImm 0, IntImm 0])
    \<and> attrs_field w' e ''dilation'' = Some (ArrayV [IntImm 1, IntImm 1])
    \<and> attrs_field w' e ''groups'' = Some (IntV 1)
    \<and> attrs_field w' e ''channels'' = Some (IndexExprV (IntImm 64))
    \<and> attrs_field w' e ''kernel_size'' = Some (ArrayV [IntImm 3, IntImm 3])
    \<and> attrs_field w' e ''data_layout'' = Some (StringV ''NCHW'')
    \<and> attrs_field w' e ''kernel_layout'' = Some (StringV ''OIHW'')
    \<and> attrs_field w' e ''out_layout'' = Some (StringV '''')
    \<and> attrs_field w' e ''output_padding'' = Some (ArrayV [IntImm 0, IntImm 0])
    \<and> attrs_field w' e ''out_dtype'' = Some (DataTypeV (DataType kFloat 32 1))) \<and>
   (\<exists>e w'.
      MakeDeformableConv Map.empty (Var ''data'') (Var ''offset'') (Var ''weight'')
        [IntImm 1, IntImm 1] [IntImm 0, IntImm 0, IntImm 0, IntImm 0] [IntImm 1, IntImm 1] 1
        1 64 [IntImm 3, IntImm 3] ''NCHW'' ''OIHW'' '''' (DataType kFloat 32 1)
        ''nn.conv2d'' example_world = (Inr e, w')
    \<and> attrs_field w' e ''strides'' = Some (ArrayV [IntImm 1, IntImm 1])
    \<and> attrs_field w' e ''padding'' = Some (ArrayV [IntImm 0, IntImm 0, IntImm 0, IntImm 0])
    \<and> attrs_field w' e ''dilation'' = Some (ArrayV [IntImm 1, IntImm 1])
    \<and> attrs_field w' e ''deformable_groups'' = Some (IntV 1)
    \<and> attrs_field w' e ''groups'' = Some (IntV 1)
    \<and> attrs_field w' e ''channels'' = Some (IntV 64)
    \<and> attrs_field w' e ''kernel_size'' = Some (ArrayV [IntImm 3, IntImm 3])
    \<and> attrs_field w' e ''data_layout'' = Some (StringV ''NCHW'')
    \<and> attrs_field w' e ''kernel_layout'' = Some (StringV ''OIHW'')
    \<and> attrs_field w' e ''out_layout'' = Some (StringV '''')
    \<and> attrs_field w' e ''out_dtype'' = Some (DataTypeV (DataType kFloat 32 1))) \<and>
   (\<exists>e w'.
      MakeFusedConv2D Map.empty (Var ''data'') (Var ''weight1'') (Var ''bias1'')
        (Var ''weight2'') (Var ''bias2'') [[IntImm 1, IntImm 1], [IntImm 1, IntImm 1]]
        [[IntImm 0, IntImm 0, IntImm 0, IntImm 0], [IntImm 0, IntImm 0, IntImm 0, IntImm 0]]
        [[IntImm 1, IntImm 1], [IntImm 1, IntImm 1]] [1, 64] [IntImm 64, IntImm 128]
        [[IntImm 3, IntImm 3], [IntImm 1, IntImm 1]] [''relu'', ''relu'']
        [''NCHW'', ''NCHW''] [''OIHW'', ''OIHW''] ['''', ''''] (DataType kFloat 32 1)
        ''nn.conv2d'' example_world = (Inr e, w')
    \<and> attrs_field w' e ''strides_array'' = Some (ArrayArrayV [[IntImm 1, IntImm 1], [IntImm 1, IntImm 1]])
    \<and> attrs_field w' e ''padding_array'' = Some (ArrayArrayV [[IntImm 0, IntImm 0, IntImm 0, IntImm 0], [IntImm 0, IntImm 0, IntImm 0, IntImm 0]])
    \<and> attrs_field w' e ''dilation_array'' = Some (ArrayArrayV [[IntImm 1, IntImm 1], [IntImm 1, IntImm 1]])
    \<and> attrs_field w' e ''groups_array'' = Some (IntegerArrayV [1, 64])
    \<and> attrs_field w' e ''channels_array'' = Some (ArrayV [IntImm 64, IntImm 128])
    \<and> attrs_field w' e ''kernel_size_array'' = Some (ArrayArrayV [[IntImm 3, IntImm 3], [IntImm 1, IntImm 1]])
    \<and> attrs_field w' e ''post_op_array'' = Some (StringArrayV [''relu'', ''relu''])
    \<and> attrs_field w' e ''data_layout_array'' = Some (StringArrayV [''NCHW'', ''NCHW''])
    \<and> attrs_field w' e ''kernel_layout_array'' = Some (StringArrayV [''OIHW'', ''OIHW''])
    \<and> attrs_field w' e ''out_layout_array'' = Some (StringArrayV ['''', ''''])
    \<and> attrs_field w' e ''out_dtype'' = Some (DataTypeV (DataType kFloat 32 1)))) \<and>
   (\<exists>attrs w'.
      MakeConv Map.empty (Var ''data'') (Var ''weight'') [IntImm 1, IntImm 1]
        [IntImm 0, IntImm 0, IntImm 0, IntImm 0] [IntImm 1, IntImm 1] 1 (IntImm 64)
        [IntImm 3, IntImm 3] ''NCHW'' ''OIHW'' '''' (DataType kFloat 32 1) ''nn.conv2d''
        example_world
      = (Inr (Call (Op ''nn.conv2d'') [Var ''data'', Var ''weight''] attrs []), w')
    \<and> attrs_field w' (Call (Op ''nn.conv2d'') [Var ''data'', Var ''weight''] attrs [])
        ''strides'' = Some (ArrayV [IntImm 1, IntImm 1])
    \<and> attrs_field w' (Call (Op ''nn.conv2d'') [Var ''data'', Var ''weight''] attrs [])
        ''padding'' = Some (ArrayV [IntImm 0, IntImm 0, IntImm 0, IntImm 0])
    \<and> attrs_field w' (Call (Op ''nn.conv2d'') [Var ''data'', Var ''weight''] attrs [])
        ''dilation'' = Some (ArrayV [IntImm 1, IntImm 1])
    \<and> attrs_field w' (Call (Op ''nn.conv2d'') [Var ''data'', Var ''weight''] attrs [])
        ''groups'' = Some (IntV 1)
    \<and> attrs_field w' (Call (Op ''nn.conv2d'') [Var ''data'', Var ''weight''] attrs [])
        ''channels'' = Some (IndexExprV (IntImm 64))
    \<and> attrs_field w' (Call (Op ''nn.conv2d'') [Var ''data'', Var ''weight''] attrs [])
        ''kernel_size'' = Some (ArrayV [IntImm 3, IntImm 3])
    \<and> attrs_field w' (Call (Op ''nn.conv2d'') [Var ''data'', Var ''weight''] attrs [])
        ''data_layout'' = Some (StringV ''NCHW'')
    \<and> attrs_field w' (Call (Op ''nn.conv2d'') [Var ''data'', Var ''weight''] attrs [])
        ''kernel_layout'' = Some (StringV ''OIHW'')
    \<and> attrs_field w' (Call (Op ''nn.conv2d'') [Var ''data'', Var ''weight''] attrs [])
        ''out_layout'' = Some (StringV '''')
    \<and> attrs_field w' (Call (Op ''nn.conv2d'') [Var ''data'', Var ''weight''] attrs [])
        ''out_dtype'' = Some (DataTypeV (DataType kFloat 32 1)))"
proof -
  have reg: "registry example_world ''nn.conv2d'' = Some (Op ''nn.conv2d'')"
    by (simp add: example_world_def example_registry_def)
  show ?thesis
    by (rule conjI [OF reg conjI
          [OF builders_store_fields_unchanged [THEN conjunct1, THEN spec, THEN mp, OF reg]
              builders_store_fields_unchanged [THEN conjunct2, THEN spec, THEN mp, OF reg]]])
qed

section \<open>Layer count of the fused builder\<close>

text \<open>
  C4. The fused builder has no layer-count parameter: with a registered name, whatever the
  caller passes and whatever \<open>num_layers\<close> was in the fresh object, the attribute record
  of the returned call node has \<open>num_layers = 2\<close>, and its \<open>strides_array\<close> is the
  sequence the caller passed (in particular when every per-layer sequence has length 2).
\<close>

theorem fused_builder_sets_two_layers:
  assumes "registry w op_name = Some d"
  shows
    "(\<exists>e w'.
        MakeFusedConv2D T data weight1 bias1 weight2 bias2 strides_array padding_array
          dilation_array groups_array channels_array kernel_size_array post_op_array
          data_layout_array kernel_layout_array out_layout_array out_dtype op_name w = (Inr e, w')
      \<and> attrs_field w' e ''num_layers'' = Some (IntV 2)
      \<and> attrs_field w' e ''strides_array'' = Some (ArrayArrayV strides_array))"
  using assms
  by (simp add: MakeFusedConv2D_result builder_result_registered MakeFusedConv2D_populate)

theorem fused_builder_sets_two_layers_witness:
  "registry example_world ''nn.conv2d'' = Some (Op ''nn.conv2d'') \<and>
   (\<exists>e w'.
      MakeFusedConv2D [''num_layers'' \<mapsto> IntV 5] (Var ''data'') (Var ''weight1'')
        (Var ''bias1'') (Var ''weight2'') (Var ''bias2'')
        [[IntImm 1, IntImm 1], [IntImm 1, IntImm 1]]
        [[IntImm 0, IntImm 0, IntImm 0, IntImm 0], [IntImm 0, IntImm 0, IntImm 0, IntImm 0]]
        [[IntImm 1, IntImm 1], [IntImm 1, IntImm 1]] [1, 64] [IntImm 64, IntImm 128]
        [[IntImm 3, IntImm 3], [IntImm 1, IntImm 1]] [''relu'', ''relu'']
        [''NCHW'', ''NCHW''] [''OIHW'', ''OIHW''] ['''', ''''] (DataType kFloat 32 1)
        ''nn.conv2d'' example_world = (Inr e, w')
    \<and> attrs_field w' e ''num_layers'' = Some (IntV 2)
    \<and> attrs_field w' e ''strides_array'' = Some (ArrayArrayV [[IntImm 1, IntImm 1], [IntImm 1, IntImm 1]]))"
proof -
  have reg: "registry example_world ''nn.conv2d'' = Some (Op ''nn.conv2d'')"
    by (simp add: example_world_def example_registry_def)
  show ?thesis
    by (rule conjI [OF reg fused_builder_sets_two_layers [OF reg]])
qed

section \<open>No validation\<close>

text \<open>
  C5. With a registered operator name every builder succeeds, whatever the other inputs
  are: it returns a call node that holds the resolved descriptor, the inputs and an
  attribute record in which every field of the builder is set, each to the very value
  the caller passed (and \<open>num_layers\<close> to 2 in the fused builder). No field value is
  checked or changed, so per-layer sequences of different lengths in the fused builder,
  or strides and padding out of range, are accepted and stored like any other input.
\<close>

theorem registered_name_always_succeeds:
  assumes "registry w op_name = Some d"
  shows
    "(\<exists>attrs w' obj.
        MakeConv T data weight strides padding dilation groups channels kernel_size
          data_layout kernel_layout out_layout out_dtype op_name w
        = (Inr (Call d [data, weight] attrs []), w')
      \<and> heap w' attrs = Some obj
      \<and> obj ''strides'' = Some (ArrayV strides)
      \<and> obj ''padding'' = Some (ArrayV padding)
      \<and> obj ''dilation'' = Some (ArrayV dilation)
      \<and> obj ''groups'' = Some (IntV groups)
      \<and> obj ''channels'' = Some (IndexExprV channels)
      \<and> obj ''kernel_size'' = Some (ArrayV kernel_size)
      \<and> obj ''data_layout'' = Some (StringV data_layout)
      \<and> obj ''kernel_layout'' = Some (StringV kernel_layout)
      \<and> obj ''out_layout'' = Some (StringV out_layout)
      \<and> obj ''out_dtype'' = Some (DataTypeV out_dtype)) \<and>
     (\<exists>attrs w' obj.
        MakeConvWinograd T data weight tile_size strides padding dilation groups channels
          kernel_size data_layout kernel_layout out_layout out_dtype op_name w
        = (Inr (Call d [data, weight] attrs []), w')
      \<and> heap w' attrs = Some obj
      \<and> obj ''tile_size'' = Some (IntV tile_size)
      \<and> obj ''strides'' = Some (ArrayV strides)
      \<and> obj ''padding'' = Some (ArrayV padding)
      \<and> obj ''dilation'' = Some (ArrayV dilation)
      \<and> obj ''groups'' = Some (IntV groups)
      \<and> obj ''channels'' = Some (IndexExprV channels)
      \<and> obj ''kernel_size'' = Some (ArrayV kernel_size)
      \<and> obj ''data_layout'' = Some (StringV data_layout)
      \<and> obj ''kernel_layout'' = Some (StringV kernel_layout)
      \<and> obj ''out_layout'' = Some (StringV out_layout)
      \<and> obj ''out_dtype'' = Some (DataTypeV out_dtype)) \<and>
     (\<exists>attrs w' obj.
        MakeConvGemm T data weight strides padding dilation groups channels kernel_size
          data_layout kernel_layout out_layout out_dtype op_name w
        = (Inr (Call d [data, weight] attrs []), w')
      \<and> heap w' attrs = Some obj
      \<and> obj ''strides'' = Some (ArrayV strides)
      \<and> obj ''padding'' = Some (ArrayV padding)
      \<and> obj ''dilation'' = Some (ArrayV dilation)
      \<and> obj ''groups'' = Some (IntV groups)
      \<and> obj ''channels'' = Some (IndexExprV channels)
      \<and> obj ''kernel_size'' = Some (ArrayV kernel_size)
      \<and> obj ''data_layout'' = Some (StringV data_layout)
      \<and> obj ''kernel_layout'' = Some (StringV kernel_layout)
      \<and> obj ''out_layout'' = Some (StringV out_layout)
      \<and> obj ''out_dtype'' = Some (DataTypeV out_dtype)) \<and>
     (\<exists>attrs w' obj.
        MakeConvTranspose T data weight strides padding dilation groups channels kernel_size
          data_layout kernel_layout out_layout output_padding out_dtype op_name w
        = (Inr (Call d [data, weight] attrs []), w')
      \<and> heap w' attrs = Some obj
      \<and> obj ''strides'' = Some (ArrayV strides)
      \<and> obj ''padding'' = Some (ArrayV padding)
      \<and> obj ''dilation'' = Some (ArrayV dilation)
      \<and> obj ''groups'' = Some (IntV groups)
      \<and> obj ''channels'' = Some (IndexExprV channels)
      \<and> obj ''kernel_size'' = Some (ArrayV kernel_size)
      \<and> obj ''data_layout'' = Some (StringV data_layout)
      \<and> obj ''kernel_layout'' = Some (StringV kernel_layout)
      \<and> obj ''out_layout'' = Some (StringV out_layout)
      \<and> obj ''output_padding'' = Some (ArrayV output_padding)
      \<and> obj ''out_dtype'' = Some (DataTypeV out_dtype)) \<and>
     (\<exists>attrs w' obj.
        MakeDeformableConv T data offset weight strides padding dilation deformable_groups
          groups int_channels kernel_size data_layout kernel_layout out_layout out_dtype
          op_name w
        = (Inr (Call d [data, offset, weight] attrs []), w')
      \<and> heap w' attrs = Some obj
      \<and> obj ''strides'' = Some (ArrayV strides)
      \<and> obj ''padding'' = Some (ArrayV padding)
      \<and> obj ''dilation'' = Some (ArrayV dilation)
      \<and> obj ''deformable_groups'' = Some (IntV deformable_groups)
      \<and> obj ''groups'' = Some (IntV groups)
      \<and> obj ''channels'' = Some (IntV int_channels)
      \<and> obj ''kernel_size'' = Some (ArrayV kernel_size)
      \<and> obj ''data_layout'' = Some (StringV data_layout)
      \<and> obj ''kernel_layout'' = Some (StringV kernel_layout)
      \<and> obj ''out_layout'' = Some (StringV out_layout)
      \<and> obj ''out_dtype'' = Some (DataTypeV out_dtype)) \<and>
     (\<exists>attrs w' obj.
        MakeFusedConv2D T data weight1 bias1 weight2 bias2 strides_array padding_array
          dilation_array groups_array channels_array kernel_size_array post_op_array
          data_layout_array kernel_layout_array out_layout_array out_dtype op_name w
        = (Inr (Call d [data, weight1, bias1, weight2, bias2] attrs []), w')
      \<and> heap w' attrs = Some obj
      \<and> obj ''num_layers'' = Some (IntV 2)
      \<and> obj ''strides_array'' = Some (ArrayArrayV strides_array)
      \<and> obj ''padding_array'' = Some (ArrayArrayV padding_array)
      \<and> obj ''dilation_array'' = Some (ArrayArrayV dilation_array)
      \<and> obj ''groups_array'' = Some (IntegerArrayV groups_array)
      \<and> obj ''channels_array'' = Some (ArrayV channels_array)
      \<and> obj ''kernel_size_array'' = Some (ArrayArrayV kernel_size_array)
      \<and> obj ''post_op_array'' = Some (StringArrayV post_op_array)
      \<and> obj ''data_layout_array'' = Some (StringArrayV data_layout_array)
      \<and> obj ''kernel_layout_array'' = Some (StringArrayV kernel_layout_array)
      \<and> obj ''out_layout_array'' = Some (StringArrayV out_layout_array)
      \<and> obj ''out_dtype'' = Some (DataTypeV out_dtype))"
  using assms
  by (intro conjI)
    (simp_all add:
      MakeConv_result MakeConvWinograd_result MakeConvGemm_result MakeConvTranspose_result
      MakeDeformableConv_result MakeFusedConv2D_result builder_result_registered
      MakeConv_populate MakeConvWinograd_populate MakeConvGemm_populate
      MakeConvTranspose_populate MakeDeformableConv_populate MakeFusedConv2D_populate)

theorem registered_name_always_succeeds_witness:
  "registry example_world ''nn.conv2d'' = Some (Op ''nn.conv2d'') \<and>
   (\<exists>attrs w' obj.
      MakeConv Map.empty (Var ''data'') (Var ''weight'') [IntImm 0, IntImm (- 1)]
        [IntImm (- 3)] [] 0 (IntImm (- 64)) [IntImm 3] ''no such layout'' ''OIHW'' ''''
        (DataType kFloat 32 1) ''nn.conv2d'' example_world
      = (Inr (Call (Op ''nn.conv2d'') [Var ''data'', Var ''weight''] attrs []), w')
    \<and> heap w' attrs = Some obj
    \<and> obj ''strides'' = Some (ArrayV [IntImm 0, IntImm (- 1)])
    \<and> obj ''padding'' = Some (ArrayV [IntImm (- 3)])
    \<and> obj ''dilation'' = Some (ArrayV [])
    \<and> obj ''groups'' = Some (IntV 0)
    \<and> obj ''channels'' = Some (IndexExprV (IntImm (- 64)))
    \<and> obj ''kernel_size'' = Some (ArrayV [IntImm 3])
    \<and> obj ''data_layout'' = Some (StringV ''no such layout'')
    \<and> obj ''kernel_layout'' = Some (StringV ''OIHW'')
    \<and> obj ''out_layout'' = Some (StringV '''')
    \<and> obj ''out_dtype'' = Some (DataTypeV (DataType kFloat 32 1))) \<and>
   (\<exists>attrs w' obj.
      MakeConvWinograd Map.empty (Var ''data'') (Var ''weight'') (- 1)
        [IntImm 0, IntImm (- 1)] [IntImm (- 3)] [] 0 (IntImm (- 64)) [IntImm 3]
        ''no such layout'' ''OIHW'' '''' (DataType kFloat 32 1) ''nn.conv2d'' example_world
      = (Inr (Call (Op ''nn.conv2d'') [Var ''data'', Var ''weight''] attrs []), w')
    \<and> heap w' attrs = Some obj
    \<and> obj ''tile_size'' = Some (IntV (- 1))
    \<and> obj ''strides'' = Some (ArrayV [IntImm 0, IntImm (- 1)])
    \<and> obj ''padding'' = Some (ArrayV [IntImm (- 3)])
    \<and> obj ''dilation'' = Some (ArrayV [])
    \<and> obj ''groups'' = Some (IntV 0)
    \<and> obj ''channels'' = Some (IndexExprV (IntImm (- 64)))
    \<and> obj ''kernel_size'' = Some (ArrayV [IntImm 3])
    \<and> obj ''data_layout'' = Some (StringV ''no such layout'')
    \<and> obj ''kernel_layout'' = Some (StringV ''OIHW'')
    \<and> obj ''out_layout'' = Some (StringV '''')
    \<and> obj ''out_dtype'' = Some (DataTypeV (DataType kFloat 32 1))) \<and>
   (\<exists>attrs w' obj.
      MakeConvGemm Map.empty (Var ''data'') (Var ''weight'') [IntImm 0, IntImm (- 1)]
        [IntImm (- 3)] [] 0 (IntImm (- 64)) [IntImm 3] ''no such layout'' ''OIHW'' ''''
        (DataType kFloat 32 1) ''nn.conv2d'' example_world
      = (Inr (Call (Op ''nn.conv2d'') [Var ''data'', Var ''weight''] attrs []), w')
    \<and> heap w' attrs = Some obj
    \<and> obj ''strides'' = Some (ArrayV [IntImm 0, IntImm (- 1)])
    \<and> obj ''padding'' = Some (ArrayV [IntImm (- 3)])
    \<and> obj ''dilation'' = Some (ArrayV [])
    \<and> obj ''groups'' = Some (IntV 0)
    \<and> obj ''channels'' = Some (IndexExprV (IntImm (- 64)))
    \<and> obj ''kernel_size'' = Some (ArrayV [IntImm 3])
    \<and> obj ''data_layout'' = Some (StringV ''no such layout'')
    \<and> obj ''kernel_layout'' = Some (StringV ''OIHW'')
    \<and> obj ''out_layout'' = Some (StringV '''')
    \<and> obj ''out_dtype'' = Some (DataTypeV (DataType kFloat 32 1))) \<and>
   (\<exists>attrs w' obj.
      MakeConvTranspose Map.empty (Var ''data'') (Var ''weight'') [IntImm 0, IntImm (- 1)]
        [IntImm (- 3)] [] 0 (IntImm (- 64)) [IntImm 3] ''no such layout'' ''OIHW'' ''''
        [IntImm (- 7)] (DataType kFloat 32 1) ''nn.conv2d'' example_world
      = (Inr (Call (Op ''nn.conv2d'') [Var ''data'', Var ''weight''] attrs []), w')
    \<and> heap w' attrs = Some obj
    \<and> obj ''strides'' = Some (ArrayV [IntImm 0, IntImm (- 1)])
    \<and> obj ''padding'' = Some (ArrayV [IntImm (- 3)])
    \<and> obj ''dilation'' = Some (ArrayV [])
    \<and> obj ''groups'' = Some (IntV 0)
    \<and> obj ''channels'' = Some (IndexExprV (IntImm (- 64)))
    \<and> obj ''kernel_size'' = Some (ArrayV [IntImm 3])
    \<and> obj ''data_layout'' = Some (StringV ''no such layout'')
    \<and> obj ''kernel_layout'' = Some (StringV ''OIHW'')
    \<and> obj ''out_layout'' = Some (StringV '''')
    \<and> obj ''output_padding'' = Some (ArrayV [IntImm (- 7)])
    \<and> obj ''out_dtype'' = Some (DataTypeV (DataType kFloat 32 1))) \<and>
   (\<exists>attrs w' obj.
      MakeDeformableConv Map.empty (Var ''data'') (Var ''offset'') (Var ''weight'')
        [IntImm 0, IntImm (- 1)] [IntImm (- 3)] [] 0 0 (- 64) [IntImm 3] ''no such layout''
        ''OIHW'' '''' (DataType kFloat 32 1) ''nn.conv2d'' example_world
      = (Inr (Call (Op ''nn.conv2d'') [Var ''data'', Var ''offset'', Var ''weight''] attrs []), w')
    \<and> heap w' attrs = Some obj
    \<and> obj ''strides'' = Some (ArrayV [IntImm 0, IntImm (- 1)])
    \<and> obj ''padding'' = Some (ArrayV [IntImm (- 3)])
    \<and> obj ''dilation'' = Some (ArrayV [])
    \<and> obj ''deformable_groups'' = Some (IntV 0)
    \<and> obj ''groups'' = Some (IntV 0)
    \<and> obj ''channels'' = Some (IntV (- 64))
    \<and> obj ''kernel_size'' = Some (ArrayV [IntImm 3])
    \<and> obj ''data_layout'' = Some (StringV ''no such layout'')
    \<and> obj ''kernel_layout'' = Some (StringV ''OIHW'')
    \<and> obj ''out_layout'' = Some (StringV '''')
    \<and> obj ''out_dtype'' = Some (DataTypeV (DataType kFloat 32 1))) \<and>
   (\<exists>attrs w' obj.
      MakeFusedConv2D Map.empty (Var ''data'') (Var ''weight1'') (Var ''bias1'')
        (Var ''weight2'') (Var ''bias2'')
        [[IntImm 1, IntImm 1], [IntImm 1, IntImm 1], [IntImm 1, IntImm 1]]
        [[IntImm 0, IntImm 0, IntImm 0, IntImm 0]] [] [1, 64, 8, 0] [IntImm 64]
        [[IntImm 3, IntImm 3], [IntImm 1, IntImm 1]] [] [''NCHW'']
        [''OIHW'', ''OIHW'', ''OIHW''] ['''', ''''] (DataType kFloat 32 1) ''nn.conv2d''
        example_world
      = (Inr (Call (Op ''nn.conv2d'') [Var ''data'', Var ''weight1'', Var ''bias1'', Var ''weight2'', Var ''bias2''] attrs []), w')
    \<and> heap w' attrs = Some obj
    \<and> obj ''num_layers'' = Some (IntV 2)
    \<and> obj ''strides_array'' = Some (ArrayArrayV [[IntImm 1, IntImm 1], [IntImm 1, IntImm 1], [IntImm 1, IntImm 1]])
    \<and> obj ''padding_array'' = Some (ArrayArrayV [[IntImm 0, IntImm 0, IntImm 0, IntImm 0]])
    \<and> obj ''dilation_array'' = Some (ArrayArrayV [])
    \<and> obj ''groups_array'' = Some (IntegerArrayV [1, 64, 8, 0])
    \<and> obj ''channels_array'' = Some (ArrayV [IntImm 64])
    \<and> obj ''kernel_size_array'' = Some (ArrayArrayV [[IntImm 3, IntImm 3], [IntImm 1, IntImm 1]])
    \<and> obj ''post_op_array'' = Some (StringArrayV [])
    \<and> obj ''data_layout_array'' = Some (StringArrayV [''NCHW''])
    \<and> obj ''kernel_layout_array'' = Some (StringArrayV [''OIHW'', ''OIHW'', ''OIHW''])
    \<and> obj ''out_layout_array'' = Some (StringArrayV ['''', ''''])
    \<and> obj ''out_dtype'' = Some (DataTypeV (DataType kFloat 32 1)))"
proof -
  have reg: "registry example_world ''nn.conv2d'' = Some (Op ''nn.conv2d'')"
    by (simp add: example_world_def example_registry_def)
  show ?thesis
    by (rule conjI [OF reg registered_name_always_succeeds [OF reg]])
qed

section \<open>Unregistered operator names\<close>

text \<open>
  C3. Called with an operator name that is not registered, every builder fails with the
  unknown-operator error for that name: the error of the lookup is the result of the
  builder (it is handed to the caller as it is, the lookup is not tried again), and no
  call node is returned. The lookup is the only point of failure: whenever a builder
  fails, the name was not registered.
\<close>

theorem unregistered_name_fails:
  "(registry w op_name = None \<longrightarrow>
      fst (MakeConv T data weight strides padding dilation groups channels kernel_size
          data_layout kernel_layout out_layout out_dtype op_name w)
        = Inl (UnknownOperator op_name) \<and>
      fst (MakeConvWinograd T data weight tile_size strides padding dilation groups channels
          kernel_size data_layout kernel_layout out_layout out_dtype op_name w)
        = Inl (UnknownOperator op_name) \<and>
      fst (MakeConvGemm T data weight strides padding dilation groups channels kernel_size
          data_layout kernel_layout out_layout out_dtype op_name w)
        = Inl (UnknownOperator op_name) \<and>
      fst (MakeConvTranspose T data weight strides padding dilation groups channels
          kernel_size data_layout kernel_layout out_layout output_padding out_dtype op_name
          w)
        = Inl (UnknownOperator op_name) \<and>
      fst (MakeDeformableConv T data offset weight strides padding dilation
          deformable_groups groups int_channels kernel_size data_layout kernel_layout
          out_layout out_dtype op_name w)
        = Inl (UnknownOperator op_name) \<and>
      fst (MakeFusedConv2D T data weight1 bias1 weight2 bias2 strides_array padding_array
          dilation_array groups_array channels_array kernel_size_array post_op_array
          data_layout_array kernel_layout_array out_layout_array out_dtype op_name w)
        = Inl (UnknownOperator op_name)) \<and>
   (\<forall>x.
      fst (MakeConv T data weight strides padding dilation groups channels kernel_size
          data_layout kernel_layout out_layout out_dtype op_name w)
        = Inl x \<or>
      fst (MakeConvWinograd T data weight tile_size strides padding dilation groups channels
          kernel_size data_layout kernel_layout out_layout out_dtype op_name w)
        = Inl x \<or>
      fst (MakeConvGemm T data weight strides padding dilation groups channels kernel_size
          data_layout kernel_layout out_layout out_dtype op_name w)
        = Inl x \<or>
      fst (MakeConvTranspose T data weight strides padding dilation groups channels
          kernel_size data_layout kernel_layout out_layout output_padding out_dtype op_name
          w)
        = Inl x \<or>
      fst (MakeDeformableConv T data offset weight strides padding dilation
          deformable_groups groups int_channels kernel_size data_layout kernel_layout
          out_layout out_dtype op_name w)
        = Inl x \<or>
      fst (MakeFusedConv2D T data weight1 bias1 weight2 bias2 strides_array padding_array
          dilation_array groups_array channels_array kernel_size_array post_op_array
          data_layout_array kernel_layout_array out_layout_array out_dtype op_name w)
        = Inl x
      \<longrightarrow> registry w op_name = None)"
  by (cases "registry w op_name")
    (simp_all add:
      MakeConv_result MakeConvWinograd_result MakeConvGemm_result MakeConvTranspose_result
      MakeDeformableConv_result MakeFusedConv2D_result builder_result_def)

theorem unregistered_name_fails_witness:
  "registry example_world ''nn.conv4d'' = None \<and>
   fst (MakeConv Map.empty (Var ''data'') (Var ''weight'') [IntImm 1, IntImm 1]
       [IntImm 0, IntImm 0, IntImm 0, IntImm 0] [IntImm 1, IntImm 1] 1 (IntImm 64)
       [IntImm 3, IntImm 3] ''NCHW'' ''OIHW'' '''' (DataType kFloat 32 1) ''nn.conv4d''
       example_world)
     = Inl (UnknownOperator ''nn.conv4d'') \<and>
   fst (MakeConvWinograd Map.empty (Var ''data'') (Var ''weight'') 4 [IntImm 1, IntImm 1]
       [IntImm 0, IntImm 0, IntImm 0, IntImm 0] [IntImm 1, IntImm 1] 1 (IntImm 64)
       [IntImm 3, IntImm 3] ''NCHW'' ''OIHW'' '''' (DataType kFloat 32 1) ''nn.conv4d''
       example_world)
     = Inl (UnknownOperator ''nn.conv4d'') \<and>
   fst (MakeConvGemm Map.empty (Var ''data'') (Var ''weight'') [IntImm 1, IntImm 1]
       [IntImm 0, IntImm 0, IntImm 0, IntImm 0] [IntImm 1, IntImm 1] 1 (IntImm 64)
       [IntImm 3, IntImm 3] ''NCHW'' ''OIHW'' '''' (DataType kFloat 32 1) ''nn.conv4d''
       example_world)
     = Inl (UnknownOperator ''nn.conv4d'') \<and>
   fst (MakeConvTranspose Map.empty (Var ''data'') (Var ''weight'') [IntImm 1, IntImm 1]
       [IntImm 0, IntImm 0, IntImm 0, IntImm 0] [IntImm 1, IntImm 1] 1 (IntImm 64)
       [IntImm 3, IntImm 3] ''NCHW'' ''OIHW'' '''' [IntImm 0, IntImm 0]
       (DataType kFloat 32 1) ''nn.conv4d'' example_world)
     = Inl (UnknownOperator ''nn.conv4d'') \<and>
   fst (MakeDeformableConv Map.empty (Var ''data'') (Var ''offset'') (Var ''weight'')
       [IntImm 1, IntImm 1] [IntImm 0, IntImm 0, IntImm 0, IntImm 0] [IntImm 1, IntImm 1] 1
       1 64 [IntImm 3, IntImm 3] ''NCHW'' ''OIHW'' '''' (DataType kFloat 32 1) ''nn.conv4d''
       example_world)
     = Inl (UnknownOperator ''nn.conv4d'') \<and>
   fst (MakeFusedConv2D Map.empty (Var ''data'') (Var ''weight1'') (Var ''bias1'')
       (Var ''weight2'') (Var ''bias2'') [[IntImm 1, IntImm 1], [IntImm 1, IntImm 1]]
       [[IntImm 0, IntImm 0, IntImm 0, IntImm 0], [IntImm 0, IntImm 0, IntImm 0, IntImm 0]]
       [[IntImm 1, IntImm 1], [IntImm 1, IntImm 1]] [1, 64] [IntImm 64, IntImm 128]
       [[IntImm 3, IntImm 3], [IntImm 1, IntImm 1]] [''relu'', ''relu'']
       [''NCHW'', ''NCHW''] [''OIHW'', ''OIHW''] ['''', ''''] (DataType kFloat 32 1)
       ''nn.conv4d'' example_world)
     = Inl (UnknownOperator ''nn.conv4d'')"
proof -
  have unreg: "registry example_world ''nn.conv4d'' = None"
    by (simp add: example_world_def example_registry_def)
  show ?thesis
    by (rule conjI [OF unreg unregistered_name_fails [THEN conjunct1, THEN mp, OF unreg]])
qed

section \<open>Extra fields of the winograd and the transpose builder\<close>

text \<open>
  C6. The winograd builder assigns its tile size first and then the fields of the plain
  builder; the transpose builder assigns an output padding as well. Neither extra field
  changes a field shared with the plain builder: called with the same shared inputs,
  the three builders leave the same values in \<open>strides\<close>, \<open>padding\<close>, \<open>dilation\<close>,
  \<open>groups\<close>, \<open>channels\<close>, \<open>kernel_size\<close>, the three layouts and \<open>out_dtype\<close>,
  whatever the tile size, the output padding and the fresh objects are.
\<close>

theorem extra_fields_keep_shared_fields:
  assumes "registry w op_name = Some d"
    and "registry w winograd_name = Some d_winograd"
    and "registry w transpose_name = Some d_transpose"
  shows
    "(\<exists>e w1 e_winograd w2 e_transpose w3.
        MakeConv T data weight strides padding dilation groups channels kernel_size
          data_layout kernel_layout out_layout out_dtype op_name w = (Inr e, w1) \<and>
        MakeConvWinograd T_winograd data weight tile_size strides padding dilation groups
          channels kernel_size data_layout kernel_layout out_layout out_dtype winograd_name
          w
          = (Inr e_winograd, w2) \<and>
        MakeConvTranspose T_transpose data weight strides padding dilation groups channels
          kernel_size data_layout kernel_layout out_layout output_padding out_dtype
          transpose_name w
          = (Inr e_transpose, w3) \<and>
        list_all
          (\<lambda>f. attrs_field w1 e f \<noteq> None \<and>
               attrs_field w2 e_winograd f = attrs_field w1 e f \<and>
               attrs_field w3 e_transpose f = attrs_field w1 e f)
          [''strides'', ''padding'', ''dilation'', ''groups'', ''channels'',
           ''kernel_size'', ''data_layout'', ''kernel_layout'', ''out_layout'',
           ''out_dtype'']) \<and>
     MakeConvWinograd_assignments tile_size strides padding dilation groups channels
       kernel_size data_layout kernel_layout out_layout out_dtype
       = (''tile_size'', IntV tile_size) #
         MakeConv_assignments strides padding dilation groups channels kernel_size
           data_layout kernel_layout out_layout out_dtype"
  using assms
  apply (intro conjI)
  subgoal
    by (simp add:
        MakeConv_result MakeConvWinograd_result MakeConvTranspose_result
        builder_result_registered MakeConv_populate MakeConvWinograd_populate
        MakeConvTranspose_populate)
  subgoal
    by (simp add: MakeConvWinograd_assignments_def MakeConv_assignments_def)
  done

theorem extra_fields_keep_shared_fields_witness:
  "registry example_world ''nn.conv2d'' = Some (Op ''nn.conv2d'') \<and>
   registry example_world ''nn.contrib_conv2d_winograd_without_weight_transform''
     = Some (Op ''nn.contrib_conv2d_winograd_without_weight_transform'') \<and>
   registry example_world ''nn.conv2d_transpose'' = Some (Op ''nn.conv2d_transpose'') \<and>
   (\<exists>e w1 e_winograd w2 e_transpose w3.
      MakeConv Map.empty (Var ''data'') (Var ''weight'') [IntImm 1, IntImm 1]
        [IntImm 0, IntImm 0, IntImm 0, IntImm 0] [IntImm 1, IntImm 1] 1 (IntImm 64)
        [IntImm 3, IntImm 3] ''NCHW'' ''OIHW'' '''' (DataType kFloat 32 1) ''nn.conv2d''
        example_world = (Inr e, w1) \<and>
      MakeConvWinograd [''tile_size'' \<mapsto> IntV 0] (Var ''data'') (Var ''weight'') 4
        [IntImm 1, IntImm 1] [IntImm 0, IntImm 0, IntImm 0, IntImm 0] [IntImm 1, IntImm 1] 1
        (IntImm 64) [IntImm 3, IntImm 3] ''NCHW'' ''OIHW'' '''' (DataType kFloat 32 1)
        ''nn.contrib_conv2d_winograd_without_weight_transform'' example_world
        = (Inr e_winograd, w2) \<and>
      MakeConvTranspose [''strides'' \<mapsto> ArrayV []] (Var ''data'') (Var ''weight'')
        [IntImm 1, IntImm 1] [IntImm 0, IntImm 0, IntImm 0, IntImm 0] [IntImm 1, IntImm 1] 1
        (IntImm 64) [IntImm 3, IntImm 3] ''NCHW'' ''OIHW'' '''' [IntImm 0, IntImm 0]
        (DataType kFloat 32 1) ''nn.conv2d_transpose'' example_world
        = (Inr e_transpose, w3) \<and>
      list_all
        (\<lambda>f. attrs_field w1 e f \<noteq> None \<and>
             attrs_field w2 e_winograd f = attrs_field w1 e f \<and>
             attrs_field w3 e_transpose f = attrs_field w1 e f)
        [''strides'', ''padding'', ''dilation'', ''groups'', ''channels'', ''kernel_size'',
         ''data_layout'', ''kernel_layout'', ''out_layout'', ''out_dtype'']) \<and>
   MakeConvWinograd_assignments 4 [IntImm 1, IntImm 1]
     [IntImm 0, IntImm 0, IntImm 0, IntImm 0] [IntImm 1, IntImm 1] 1 (IntImm 64)
     [IntImm 3, IntImm 3] ''NCHW'' ''OIHW'' '''' (DataType kFloat 32 1)
     = (''tile_size'', IntV 4) #
       MakeConv_assignments [IntImm 1, IntImm 1] [IntImm 0, IntImm 0, IntImm 0, IntImm 0]
         [IntImm 1, IntImm 1] 1 (IntImm 64) [IntImm 3, IntImm 3] ''NCHW'' ''OIHW'' ''''
         (DataType kFloat 32 1)"
proof -
  have reg: "registry example_world ''nn.conv2d'' = Some (Op ''nn.conv2d'')"
    by (simp add: example_world_def example_registry_def)
  have reg_winograd: "registry example_world ''nn.contrib_conv2d_winograd_without_weight_transform''
      = Some (Op ''nn.contrib_conv2d_winograd_without_weight_transform'')"
    by (simp add: example_world_def example_registry_def)
  have reg_transpose:
    "registry example_world ''nn.conv2d_transpose'' = Some (Op ''nn.conv2d_transpose'')"
    by (simp add: example_world_def example_registry_def)
  show ?thesis
    by (intro conjI reg reg_winograd reg_transpose
      extra_fields_keep_shared_fields [OF reg reg_winograd reg_transpose, THEN conjunct1]
      extra_fields_keep_shared_fields [OF reg reg_winograd reg_transpose, THEN conjunct2])
qed

section \<open>The transpose builder\<close>

text \<open>
  C7. The transpose builder has the contract of the plain builder and one more field.
  With an unregistered name it fails with the unknown-operator error. With a registered
  name it returns the call node that the plain builder returns for the same inputs, over
  exactly \<open>[data, weight]\<close>, and its attribute object is that of the plain builder with
  \<open>output_padding\<close> set to the sequence passed. Its assignment statements are those of
  the plain builder with the assignment of \<open>output_padding\<close> put after the standard
  fields and before the last statement, which assigns \<open>out_dtype\<close>.
\<close>

theorem transpose_builder_contract:
  "(registry w op_name = None \<longrightarrow>
       fst (MakeConvTranspose T data weight strides padding dilation groups channels
           kernel_size data_layout kernel_layout out_layout output_padding out_dtype op_name
           w)
       = Inl (UnknownOperator op_name)) \<and>
   (\<forall>d. registry w op_name = Some d \<longrightarrow>
       (\<exists>attrs w_plain w_transpose obj.
          MakeConv T data weight strides padding dilation groups channels kernel_size
            data_layout kernel_layout out_layout out_dtype op_name w
            = (Inr (Call d [data, weight] attrs []), w_plain) \<and>
          MakeConvTranspose T data weight strides padding dilation groups channels
            kernel_size data_layout kernel_layout out_layout output_padding out_dtype
            op_name w
            = (Inr (Call d [data, weight] attrs []), w_transpose) \<and>
          heap w_plain attrs = Some obj \<and>
          heap w_transpose attrs
            = Some (obj(''output_padding'' \<mapsto> ArrayV output_padding)))) \<and>
   MakeConvTranspose_assignments strides padding dilation groups channels kernel_size
     data_layout kernel_layout out_layout output_padding out_dtype
     = butlast
         (MakeConv_assignments strides padding dilation groups channels kernel_size
           data_layout kernel_layout out_layout out_dtype)
       @ [(''output_padding'', ArrayV output_padding),
          last
            (MakeConv_assignments strides padding dilation groups channels kernel_size
              data_layout kernel_layout out_layout out_dtype)] \<and>
   last
     (MakeConv_assignments strides padding dilation groups channels kernel_size data_layout
       kernel_layout out_layout out_dtype)
     = (''out_dtype'', DataTypeV out_dtype)"
proof (intro conjI allI impI)
  assume "registry w op_name = None"
  then show "fst (MakeConvTranspose T data weight strides padding dilation groups channels
      kernel_size data_layout kernel_layout out_layout output_padding out_dtype op_name w)
    = Inl (UnknownOperator op_name)"
    by (simp add: MakeConvTranspose_result builder_result_unregistered)
next
  fix d
  assume reg: "registry w op_name = Some d"
  let ?plain = "populate T (MakeConv_assignments strides padding dilation groups channels
      kernel_size data_layout kernel_layout out_layout out_dtype)"
  have "populate T (MakeConvTranspose_assignments strides padding dilation groups channels
      kernel_size data_layout kernel_layout out_layout output_padding out_dtype)
    = ?plain(''output_padding'' \<mapsto> ArrayV output_padding)"
    by (rule ext) (simp add: MakeConvTranspose_populate MakeConv_populate)
  with reg show "(\<exists>attrs w_plain w_transpose obj.
          MakeConv T data weight strides padding dilation groups channels kernel_size
            data_layout kernel_layout out_layout out_dtype op_name w
            = (Inr (Call d [data, weight] attrs []), w_plain) \<and>
          MakeConvTranspose T data weight strides padding dilation groups channels
            kernel_size data_layout kernel_layout out_layout output_padding out_dtype
            op_name w
            = (Inr (Call d [data, weight] attrs []), w_transpose) \<and>
          heap w_plain attrs = Some obj \<and>
          heap w_transpose attrs
            = Some (obj(''output_padding'' \<mapsto> ArrayV output_padding)))"
    by (simp add: MakeConvTranspose_result MakeConv_result builder_result_registered)
qed (simp_all add: MakeConvTranspose_assignments_def MakeConv_assignments_def)

theorem transpose_builder_contract_witness:
  "registry example_world ''nn.conv4d'' = None \<and>
   fst (MakeConvTranspose Map.empty (Var ''data'') (Var ''weight'') [IntImm 1, IntImm 1]
           [IntImm 0, IntImm 0, IntImm 0, IntImm 0] [IntImm 1, IntImm 1] 1 (IntImm 64)
           [IntImm 3, IntImm 3] ''NCHW'' ''OIHW'' '''' [IntImm 0, IntImm 0]
           (DataType kFloat 32 1) ''nn.conv4d'' example_world)
       = Inl (UnknownOperator ''nn.conv4d'') \<and>
   registry example_world ''nn.conv2d_transpose'' = Some (Op ''nn.conv2d_transpose'') \<and>
   (\<exists>attrs w_plain w_transpose obj.
          MakeConv Map.empty (Var ''data'') (Var ''weight'') [IntImm 1, IntImm 1]
            [IntImm 0, IntImm 0, IntImm 0, IntImm 0] [IntImm 1, IntImm 1] 1 (IntImm 64)
            [IntImm 3, IntImm 3] ''NCHW'' ''OIHW'' '''' (DataType kFloat 32 1)
            ''nn.conv2d_transpose'' example_world
            = (Inr (Call (Op ''nn.conv2d_transpose'') [Var ''data'', Var ''weight''] attrs []), w_plain) \<and>
          MakeConvTranspose Map.empty (Var ''data'') (Var ''weight'') [IntImm 1, IntImm 1]
            [IntImm 0, IntImm 0, IntImm 0, IntImm 0] [IntImm 1, IntImm 1] 1 (IntImm 64)
            [IntImm 3, IntImm 3] ''NCHW'' ''OIHW'' '''' [IntImm 0, IntImm 0]
            (DataType kFloat 32 1) ''nn.conv2d_transpose'' example_world
            = (Inr (Call (Op ''nn.conv2d_transpose'') [Var ''data'', Var ''weight''] attrs []), w_transpose) \<and>
          heap w_plain attrs = Some obj \<and>
          heap w_transpose attrs
            = Some (obj(''output_padding'' \<mapsto> ArrayV [IntImm 0, IntImm 0])))"
proof -
  have unreg: "registry example_world ''nn.conv4d'' = None"
    by (simp add: example_world_def example_registry_def)
  have reg:
    "registry example_world ''nn.conv2d_transpose'' = Some (Op ''nn.conv2d_transpose'')"
    by (simp add: example_world_def example_registry_def)
  show ?thesis
    by (intro conjI unreg reg
      transpose_builder_contract [THEN conjunct1, THEN mp, OF unreg]
      transpose_builder_contract [THEN conjunct2, THEN conjunct1, THEN spec, THEN mp, OF reg])
qed

section \<open>Independence of invocations\<close>

lemma invoke_result:
  "\<exists>op_name ins T stmts. invoke i = builder_result op_name ins T stmts"
  by (cases i)
    (simp_all only: invoke.simps,
      ((intro exI ext),
        rule MakeConv_result MakeFusedConv2D_result MakeConvWinograd_result
          MakeConvGemm_result MakeConvTranspose_result MakeDeformableConv_result)+)

lemma outcome_builder_result:
  "outcome (builder_result op_name ins T stmts w) =
     (case registry w op_name of
        None \<Rightarrow> Inl (UnknownOperator op_name)
      | Some d \<Rightarrow> Inr (CallValue d ins (Some (populate T stmts)) []))"
  by (simp add: outcome_def builder_result_def split: option.split)

lemma outcome_same_registry:
  assumes "registry w' = registry w"
  shows "outcome (invoke i w') = outcome (invoke i w)"
proof -
  obtain op_name ins T stmts where "invoke i = builder_result op_name ins T stmts"
    using invoke_result by blast
  with assms show ?thesis by (simp add: outcome_builder_result)
qed

lemma registry_invoke: "registry (snd (invoke i w)) = registry w"
proof -
  obtain op_name ins T stmts where "invoke i = builder_result op_name ins T stmts"
    using invoke_result by blast
  then show ?thesis by (simp add: builder_result_def split: option.split)
qed

lemma next_free_invoke: "next_free (snd (invoke i w)) = Suc (next_free w)"
proof -
  obtain op_name ins T stmts where "invoke i = builder_result op_name ins T stmts"
    using invoke_result by blast
  then show ?thesis by (simp add: builder_result_def split: option.split)
qed

lemma heap_invoke: "p \<noteq> next_free w \<Longrightarrow> heap (snd (invoke i w)) p = heap w p"
proof -
  obtain op_name ins T stmts where "invoke i = builder_result op_name ins T stmts"
    using invoke_result by blast
  then show "p \<noteq> next_free w \<Longrightarrow> heap (snd (invoke i w)) p = heap w p"
    by (simp add: builder_result_def split: option.split)
qed

lemma registry_invoke_all: "registry (invoke_all js w) = registry w"
  by (induction js arbitrary: w) (simp_all add: registry_invoke)

lemma heap_invoke_all: "p < next_free w \<Longrightarrow> heap (invoke_all js w) p = heap w p"
proof (induction js arbitrary: w)
  case Nil
  then show ?case by simp
next
  case (Cons j js)
  from Cons.prems have "p < next_free (snd (invoke j w))"
    by (simp add: next_free_invoke)
  then have "heap (invoke_all js (snd (invoke j w))) p = heap (snd (invoke j w)) p"
    by (rule Cons.IH)
  also from Cons.prems have "\<dots> = heap w p"
    by (simp add: heap_invoke)
  finally show ?case by simp
qed

lemma outcome_later:
  "outcome (fst (invoke i w), invoke_all js (snd (invoke i w))) = outcome (invoke i w)"
proof (cases "fst (invoke i w)")
  case (Inl x)
  then show ?thesis by (simp add: outcome_def)
next
  case (Inr e)
  obtain op_name ins T stmts where i: "invoke i = builder_result op_name ins T stmts"
    using invoke_result by blast
  with Inr obtain d where e: "e = Call d ins (next_free w) []"
    by (auto simp: builder_result_def split: option.splits)
  have "next_free w < next_free (snd (invoke i w))"
    by (simp add: next_free_invoke)
  then have "heap (invoke_all js (snd (invoke i w))) (next_free w)
      = heap (snd (invoke i w)) (next_free w)"
    by (rule heap_invoke_all)
  with Inr e show ?thesis by (simp add: outcome_def)
qed

text \<open>
  C8. A builder is deterministic and keeps no state between invocations. Let \<open>i\<close> be an
  invocation of any of the six builders with any arguments, and \<open>js\<close> any sequence of
  such invocations (of the same or of other builders). The call node that \<open>i\<close> returns,
  read with the content of its attribute object, depends on the registry alone: in two
  worlds with the same registry, whatever is on their heaps, \<open>i\<close> returns equal call
  nodes. \<open>i\<close> leaves the registry as it was. What \<open>i\<close> returns after \<open>js\<close> have run is
  what it returns without them, and the call node that \<open>i\<close> returned is the same after
  \<open>js\<close> have run.
\<close>

theorem builders_are_stateless:
  "(\<forall>w w'. registry w' = registry w \<longrightarrow> outcome (invoke i w') = outcome (invoke i w)) \<and>
   (\<forall>w. registry (snd (invoke i w)) = registry w) \<and>
   (\<forall>w. outcome (invoke i (invoke_all js w)) = outcome (invoke i w)) \<and>
   (\<forall>w. outcome (fst (invoke i w), invoke_all js (snd (invoke i w)))
          = outcome (invoke i w))"
proof (intro conjI allI impI)
  fix w w' :: world
  assume "registry w' = registry w"
  then show "outcome (invoke i w') = outcome (invoke i w)"
    by (rule outcome_same_registry)
next
  fix w
  show "registry (snd (invoke i w)) = registry w"
    by (rule registry_invoke)
next
  fix w
  show "outcome (invoke i (invoke_all js w)) = outcome (invoke i w)"
    by (rule outcome_same_registry) (rule registry_invoke_all)
next
  fix w
  show "outcome (fst (invoke i w), invoke_all js (snd (invoke i w)))
      = outcome (invoke i w)"
    by (rule outcome_later)
qed

theorem builders_are_stateless_witness:
  "registry empty_world = registry example_world \<and>
   outcome (invoke example_conv empty_world) = outcome (invoke example_conv example_world) \<and>
   registry (snd (invoke example_conv example_world)) = registry example_world \<and>
   outcome (invoke example_conv
              (invoke_all [example_deformable, example_conv, example_fused] example_world))
     = outcome (invoke example_conv example_world) \<and>
   outcome (fst (invoke example_conv example_world),
            invoke_all [example_deformable, example_conv, example_fused]
              (snd (invoke example_conv example_world)))
     = outcome (invoke example_conv example_world)"
proof -
  have same: "registry empty_world = registry example_world"
    by (simp add: empty_world_def example_world_def)
  note inst = builders_are_stateless
    [of example_conv "[example_deformable, example_conv, example_fused]"]
  show ?thesis
    by (intro conjI same
        inst [THEN conjunct1, THEN spec, THEN spec, THEN mp, OF same]
        inst [THEN conjunct2, THEN conjunct1, THEN spec]
        inst [THEN conjunct2, THEN conjunct2, THEN conjunct1, THEN spec]
        inst [THEN conjunct2, THEN conjunct2, THEN conjunct2, THEN spec])
qed

section \<open>The plain and the gemm builder\<close>

text \<open>
  C9. \<^verbatim>\<open>MakeConv\<close> and \<^verbatim>\<open>MakeConvGemm\<close> are the same function: for the same attribute
  record type, the same inputs and the same world they return the same call node and
  leave the same world.
\<close>

theorem MakeConvGemm_is_MakeConv:
  "MakeConvGemm T data weight strides padding dilation groups channels kernel_size
     data_layout kernel_layout out_layout out_dtype op_name w
   = MakeConv T data weight strides padding dilation groups channels kernel_size
       data_layout kernel_layout out_layout out_dtype op_name w
   \<and> MakeConvGemm = MakeConv"
proof -
  have "MakeConvGemm = MakeConv"
    by (intro ext) (simp add: MakeConvGemm_def MakeConv_def MakeConvGemm_assignments_def
        MakeConv_assignments_def)
  then show ?thesis by simp
qed

section \<open>Type arguments of the call node\<close>

text \<open>
  C10. Whatever the inputs, a call node returned by any of the six builders has an empty
  list of type arguments.
\<close>

theorem builders_pass_no_type_arguments:
  assumes "fst (invoke i w) = Inr e"
  shows "\<exists>op args attrs tys. e = Call op args attrs tys \<and> length tys = 0"
proof -
  obtain op_name ins T stmts
    where "invoke i = builder_result op_name ins T stmts"
    using invoke_result by blast
  with assms show ?thesis
    by (auto simp: builder_result_def split: option.splits)
qed


theorem builders_pass_no_type_arguments_witness:
  "fst (invoke example_conv example_world)
     = Inr (Call (Op ''nn.conv2d'')
             [Var ''data'', Var ''weight''] 1 []) \<and>
   (\<exists>op args attrs tys.
      Call (Op ''nn.conv2d'')
        [Var ''data'', Var ''weight''] 1 []
        = Call op args attrs tys
      \<and> length tys = 0) \<and>
   fst (invoke example_winograd example_world)
     = Inr (Call (Op ''nn.conv2d'')
             [Var ''data'', Var ''weight''] 1 []) \<and>
   (\<exists>op args attrs tys.
      Call (Op ''nn.conv2d'')
        [Var ''data'', Var ''weight''] 1 []
        = Call op args attrs tys
      \<and> length tys = 0) \<and>
   fst (invoke example_gemm example_world)
     = Inr (Call (Op ''nn.conv2d'')
             [Var ''data'', Var ''weight''] 1 []) \<and>
   (\<exists>op args attrs tys.
      Call (Op ''nn.conv2d'')
        [Var ''data'', Var ''weight''] 1 []
        = Call op args attrs tys
      \<and> length tys = 0) \<and>
   fst (invoke example_transpose example_world)
     = Inr (Call (Op ''nn.conv2d'')
             [Var ''data'', Var ''weight''] 1 []) \<and>
   (\<exists>op args attrs tys.
      Call (Op ''nn.conv2d'')
        [Var ''data'', Var ''weight''] 1 []
        = Call op args attrs tys
      \<and> length tys = 0) \<and>
   fst (invoke example_deformable example_world)
     = Inr (Call (Op ''nn.conv2d'')
             [Var ''data'', Var ''offset'', Var ''weight''] 1 []) \<and>
   (\<exists>op args attrs tys.
      Call (Op ''nn.conv2d'')
        [Var ''data'', Var ''offset'', Var ''weight''] 1 []
        = Call op args attrs tys
      \<and> length tys = 0) \<and>
   fst (invoke example_fused example_world)
     = Inr (Call (Op ''nn.conv2d'')
             [Var ''data'', Var ''weight1'', Var ''bias1'', Var ''weight2'', Var ''bias2''] 1 []) \<and>
   (\<exists>op args attrs tys.
      Call (Op ''nn.conv2d'')
        [Var ''data'', Var ''weight1'', Var ''bias1'', Var ''weight2'', Var ''bias2''] 1 []
        = Call op args attrs tys
      \<and> length tys = 0)"
proof -
  have run_conv: "fst (invoke example_conv example_world)
      = Inr (Call (Op ''nn.conv2d'')
              [Var ''data'', Var ''weight''] 1 [])"
    by (simp add: example_conv_def MakeConv_result builder_result_def
        example_world_def example_registry_def)
  have run_winograd: "fst (invoke example_winograd example_world)
      = Inr (Call (Op ''nn.conv2d'')
              [Var ''data'', Var ''weight''] 1 [])"
    by (simp add: example_winograd_def MakeConvWinograd_result builder_result_def
        example_world_def example_registry_def)
  have run_gemm: "fst (invoke example_gemm example_world)
      = Inr (Call (Op ''nn.conv2d'')
              [Var ''data'', Var ''weight''] 1 [])"
    by (simp add: example_gemm_def MakeConvGemm_result builder_result_def
        example_world_def example_registry_def)
  have run_transpose: "fst (invoke example_transpose example_world)
      = Inr (Call (Op ''nn.conv2d'')
              [Var ''data'', Var ''weight''] 1 [])"
    by (simp add: example_transpose_def MakeConvTranspose_result builder_result_def
        example_world_def example_registry_def)
  have run_deformable: "fst (invoke example_deformable example_world)
      = Inr (Call (Op ''nn.conv2d'')
              [Var ''data'', Var ''offset'', Var ''weight''] 1 [])"
    by (simp add: example_deformable_def MakeDeformableConv_result builder_result_def
        example_world_def example_registry_def)
  have run_fused: "fst (invoke example_fused example_world)
      = Inr (Call (Op ''nn.conv2d'')
              [Var ''data'', Var ''weight1'', Var ''bias1'', Var ''weight2'', Var ''bias2''] 1 [])"
    by (simp add: example_fused_def MakeFusedConv2D_result builder_result_def
        example_world_def example_registry_def)
  show ?thesis
    by (intro conjI
        run_conv
        builders_pass_no_type_arguments [OF run_conv]
        run_winograd
        builders_pass_no_type_arguments [OF run_winograd]
        run_gemm
        builders_pass_no_type_arguments [OF run_gemm]
        run_transpose
        builders_pass_no_type_arguments [OF run_transpose]
        run_deformable
        builders_pass_no_type_arguments [OF run_deformable]
        run_fused
        builders_pass_no_type_arguments [OF run_fused])
qed

end
